theory Spec2Isabelle
  imports Complex_Main "HOL-Library.Multiset" "HOL-Library.Sublist"
begin

section \<open>Numbers and instants\<close>

text \<open>
  JavaScript numbers are modelled as exact reals: the arithmetic below is the arithmetic
  of the source with the rounding error of IEEE doubles left out. Instants are the
  millisecond time stamps that \<^verbatim>\<open>moment.valueOf()\<close> and \<^verbatim>\<open>Date\<close> carry.
\<close>

type_synonym instant = int

abbreviation MILLISECONDS_PER_DAY :: int where "MILLISECONDS_PER_DAY \<equiv> 86400000"
abbreviation DEGREES_IN_CIRCLE :: real where "DEGREES_IN_CIRCLE \<equiv> 360"
abbreviation DEGREES_PER_MONTH :: real where "DEGREES_PER_MONTH \<equiv> 30"
abbreviation MONTHS_IN_YEAR :: int where "MONTHS_IN_YEAR \<equiv> 12"
abbreviation DEGREE_PRECISION :: real where "DEGREE_PRECISION \<equiv> 1 / 1000"
abbreviation MAX_BINARY_SEARCH_ITERATIONS :: nat where "MAX_BINARY_SEARCH_ITERATIONS \<equiv> 100"
abbreviation HOUR_ANGLE_HORIZON :: real where "HOUR_ANGLE_HORIZON \<equiv> 12"

text \<open>The \<^verbatim>\<open>%\<close> operator of JavaScript: the remainder takes the sign of the dividend.\<close>

definition js_trunc :: "real \<Rightarrow> int" where
  "js_trunc x = (if x < 0 then - \<lfloor>- x\<rfloor> else \<lfloor>x\<rfloor>)"

definition js_rem :: "real \<Rightarrow> real \<Rightarrow> real" where
  "js_rem a b = a - b * of_int (js_trunc (a / b))"

text \<open>
  \<^verbatim>\<open>parseFloat(x.toFixed(2))\<close>: the nearest multiple of 1/100, the larger one on a tie,
  computed on the absolute value with the sign put back.
\<close>

definition toFixed2 :: "real \<Rightarrow> real" where
  "toFixed2 x =
     (if x < 0 then - (of_int \<lfloor>(- x) * 100 + 1 / 2\<rfloor> / 100)
      else of_int \<lfloor>x * 100 + 1 / 2\<rfloor> / 100)"

section \<open>Reference frame normalizer\<close>

definition getDegree :: "real \<Rightarrow> real \<Rightarrow> real" where
  "getDegree helioLongitude springEquinoxLongitude =
     toFixed2 (js_rem (helioLongitude - springEquinoxLongitude + DEGREES_IN_CIRCLE) DEGREES_IN_CIRCLE)"

text \<open>The normalizer as the specification words it: a mathematical modulus, then rounding.\<close>

definition mod360 :: "real \<Rightarrow> real" where
  "mod360 x = x - 360 * of_int \<lfloor>x / 360\<rfloor>"

definition round2 :: "real \<Rightarrow> real" where
  "round2 x = of_int \<lfloor>x * 100 + 1 / 2\<rfloor> / 100"

definition normalize_spec :: "real \<Rightarrow> real \<Rightarrow> real" where
  "normalize_spec longitude referenceLongitude = round2 (mod360 (longitude - referenceLongitude + 360))"

text \<open>
  The same function with the rounding of double arithmetic written out. \<open>rnd\<close> is the
  rounding of a real to the nearest double: the subtraction, the addition and
  \<^verbatim>\<open>parseFloat\<close> each round once; the remainder \<^verbatim>\<open>%\<close> of two doubles is a double and
  is exact, and \<^verbatim>\<open>toFixed(2)\<close> rounds the exact value of its double. With no rounding
  (\<open>rnd\<close> the identity) this is \<open>getDegree\<close>.
\<close>

definition getDegree_fl :: "(real \<Rightarrow> real) \<Rightarrow> real \<Rightarrow> real \<Rightarrow> real" where
  "getDegree_fl rnd helioLongitude springEquinoxLongitude =
     rnd (toFixed2 (js_rem (rnd (rnd (helioLongitude - springEquinoxLongitude) + DEGREES_IN_CIRCLE))
                      DEGREES_IN_CIRCLE))"



text \<open>The normalized degree before rounding, which the source never computes on its own.\<close>

definition unroundedDegree :: "real \<Rightarrow> real \<Rightarrow> real" where
  "unroundedDegree helioLongitude springEquinoxLongitude =
     js_rem (helioLongitude - springEquinoxLongitude + DEGREES_IN_CIRCLE) DEGREES_IN_CIRCLE"

section \<open>Month bucket and candidate day\<close>

text \<open>
  The month index of \<^verbatim>\<open>generateCalendarYear\<close>:
  \<^verbatim>\<open>Math.floor(degree / DEGREES_PER_MONTH)\<close>, reset to 0 when it reaches \<^verbatim>\<open>MONTHS_IN_YEAR\<close>.
\<close>

definition monthIndex :: "real \<Rightarrow> int" where
  "monthIndex degree =
     (let m = \<lfloor>degree / DEGREES_PER_MONTH\<rfloor> in if m \<ge> MONTHS_IN_YEAR then 0 else m)"

definition degreeRangeCoversBirthTarget :: "real \<Rightarrow> real \<Rightarrow> real \<Rightarrow> bool" where
  "degreeRangeCoversBirthTarget SolarStartDegree SolarEndDegree TRUE_TARGET_BIRTH_DEGREE =
     (if SolarStartDegree \<le> SolarEndDegree
      then (if TRUE_TARGET_BIRTH_DEGREE \<ge> SolarStartDegree \<and> TRUE_TARGET_BIRTH_DEGREE \<le> SolarEndDegree
            then True else False)
      else (if TRUE_TARGET_BIRTH_DEGREE \<ge> SolarStartDegree \<or> TRUE_TARGET_BIRTH_DEGREE \<le> SolarEndDegree
            then True else False))"

text \<open>The candidate test as the specification words it.\<close>

definition candidate_spec :: "real \<Rightarrow> real \<Rightarrow> real \<Rightarrow> bool" where
  "candidate_spec D_start D_end T =
     ((D_start \<le> D_end \<and> D_start \<le> T \<and> T \<le> D_end) \<or>
      (D_start > D_end \<and> (T \<ge> D_start \<or> T \<le> D_end)))"

section \<open>Data model\<close>

text \<open>
  The enumeration \<^verbatim>\<open>Months\<close> numbers the zodiac months from 1; \<^verbatim>\<open>Months[m]\<close> is the name
  of number \<open>m\<close>.
\<close>

definition Months_name :: "nat \<Rightarrow> string" where
  "Months_name m =
     (if m = 1 then ''Aries'' else if m = 2 then ''Taurus'' else if m = 3 then ''Gemini''
      else if m = 4 then ''Cancer'' else if m = 5 then ''Leo'' else if m = 6 then ''Virgo''
      else if m = 7 then ''Libra'' else if m = 8 then ''Scorpio''
      else if m = 9 then ''Sagittarius'' else if m = 10 then ''Capricorn''
      else if m = 11 then ''Aquarius'' else if m = 12 then ''Pisces'' else [])"

text \<open>
  An entry of a day's \<^verbatim>\<open>Events\<close> array. The source stores the date formatted to the
  second; the model keeps the instant that is formatted.
\<close>

record event_entry =
  name :: string
  description :: string
  date :: instant

text \<open>
  A day of the calendar. The source formats the three solar instants as strings; the
  model keeps the instants. \<^verbatim>\<open>Delta\<close> is the sign character and the seconds printed
  after it.
\<close>

record Day =
  Number :: nat
  Date :: instant
  SolarStart :: instant
  SolarNoon :: instant
  SolarEnd :: instant
  MoonPhase :: string
  Delta :: "char \<times> real"
  SolarDegree :: real
  Events :: "event_entry list"

record Month =
  Month :: nat
  Name :: string
  TotalDays :: nat
  Days :: "Day list"

record Events =
  SpringEquinox :: instant
  SummerSolstice :: instant
  AutumnEquinox :: instant
  WinterSolstice :: instant
  SpringEquinox2 :: instant
  Aphelion :: instant
  Perihelion :: instant
  Birth :: instant

record Observer =
  latitude :: real
  longitude :: real
  height :: real

text \<open>What \<^verbatim>\<open>getDayInfo\<close> returns.\<close>

record DayInfo =
  info_MoonPhase :: string
  info_SolarStart :: instant
  info_SolarNoon :: instant
  info_SolarEnd :: instant
  info_Delta :: "char \<times> real"

section \<open>Collaborators\<close>

text \<open>
  The ephemeris library (astronomy-engine) is a parameter of the model. Each function
  returns the instant that the source obtains by \<^verbatim>\<open>moment(result.toString())\<close>.
  \<open>HelioAngle\<close> is \<^verbatim>\<open>Math.atan2(y, x) * RADIANS_TO_DEGREES\<close> for the vector
  \<^verbatim>\<open>HelioVector(Body.Earth, date)\<close>, a value between -180 and 180.
  \<open>SearchHourAngle\<close> is the search for the Sun, with the observer, the hour angle, the
  start instant and the direction.
\<close>

record ephemeris =
  HelioAngle :: "instant \<Rightarrow> real"
  mar_equinox :: "int \<Rightarrow> instant"
  jun_solstice :: "int \<Rightarrow> instant"
  sep_equinox :: "int \<Rightarrow> instant"
  dec_solstice :: "int \<Rightarrow> instant"
  SearchPlanetApsis :: "instant \<Rightarrow> instant"
  NextPlanetApsis :: "instant \<Rightarrow> instant"
  SearchHourAngle :: "Observer \<Rightarrow> real \<Rightarrow> instant \<Rightarrow> int \<Rightarrow> instant"
  MoonPhaseAngle :: "instant \<Rightarrow> real"

text \<open>
  The civil time library (moment-timezone and \<^verbatim>\<open>Date\<close>): the calendar year of an
  instant in UTC, the parser of a birth date, time and zone, and \<^verbatim>\<open>new Date(year, 4, 1)\<close>.
\<close>

record civil_time =
  year_of :: "instant \<Rightarrow> int"
  tz_parse :: "string \<Rightarrow> string \<Rightarrow> string \<Rightarrow> instant"
  may_first :: "int \<Rightarrow> instant"

text \<open>
  The source keeps every moment it iterates over in UTC mode. There
  \<^verbatim>\<open>format('YYYY-MM-DD')\<close> names the UTC day, so two formatted dates are equal exactly when
  the day numbers are (the revision without the cache compares \<^verbatim>\<open>format('MM/DD/YY')\<close>); \<^verbatim>\<open>a.isBefore(b, 'day')\<close> compares the last millisecond of the day
  of \<open>a\<close> with \<open>b\<close>; \<^verbatim>\<open>add(1, 'days')\<close> adds 86400000 ms.
\<close>

definition format_YYYY_MM_DD :: "instant \<Rightarrow> int" where
  "format_YYYY_MM_DD t = t div MILLISECONDS_PER_DAY"

definition endOf_day :: "instant \<Rightarrow> instant" where
  "endOf_day t = (t div MILLISECONDS_PER_DAY) * MILLISECONDS_PER_DAY + (MILLISECONDS_PER_DAY - 1)"

definition isBefore_day :: "instant \<Rightarrow> instant \<Rightarrow> bool" where
  "isBefore_day a b = (endOf_day a < b)"

text \<open>\<^verbatim>\<open>currentDate.clone().utc().hours(12).minutes(0).seconds(0).milliseconds(0)\<close>\<close>

definition noon_utc :: "instant \<Rightarrow> instant" where
  "noon_utc t = (t div MILLISECONDS_PER_DAY) * MILLISECONDS_PER_DAY + 43200000"

section \<open>The generator without the longitude cache\<close>

definition getHeliocentricLongitude :: "ephemeris \<Rightarrow> instant \<Rightarrow> real" where
  "getHeliocentricLongitude eph d =
     js_rem (HelioAngle eph d + DEGREES_IN_CIRCLE) DEGREES_IN_CIRCLE"

definition moonPhaseLabel :: "real \<Rightarrow> string" where
  "moonPhaseLabel Moon =
     (if Moon \<ge> 0 \<and> Moon < 45 then ''New Moon''
      else if Moon \<ge> 45 \<and> Moon < 90 then ''Waxing Cres.''
      else if Moon \<ge> 90 \<and> Moon < 135 then ''First Quarter''
      else if Moon \<ge> 135 \<and> Moon < 180 then ''Waxing Gibb.''
      else if Moon \<ge> 180 \<and> Moon < 225 then ''Full Moon''
      else if Moon \<ge> 225 \<and> Moon < 270 then ''Waning Gibb.''
      else if Moon \<ge> 270 \<and> Moon < 315 then ''Third Quarter''
      else if Moon \<ge> 315 \<and> Moon \<le> 360 then ''Waning Cres.''
      else [])"

definition getDayInfo :: "ephemeris \<Rightarrow> Observer \<Rightarrow> instant \<Rightarrow> DayInfo" where
  "getDayInfo eph obs d =
     (let noon = SearchHourAngle eph obs 0 d 1;
          Phase = moonPhaseLabel (MoonPhaseAngle eph noon);
          start = SearchHourAngle eph obs HOUR_ANGLE_HORIZON noon (- 1);
          end = SearchHourAngle eph obs HOUR_ANGLE_HORIZON noon 1;
          TimeInDay = end - start;
          sign = (if TimeInDay \<ge> MILLISECONDS_PER_DAY then CHR ''+'' else CHR ''-'');
          duration = TimeInDay - MILLISECONDS_PER_DAY;
          formattedDuration = \<bar>real_of_int duration\<bar> / 1000
      in \<lparr>info_MoonPhase = Phase, info_SolarStart = start, info_SolarNoon = noon,
          info_SolarEnd = end, info_Delta = (sign, formattedDuration)\<rparr>)"

definition getBirthDegree :: "ephemeris \<Rightarrow> civil_time \<Rightarrow> instant \<Rightarrow> real" where
  "getBirthDegree eph civ birthDate =
     (let birthYearEquinox = mar_equinox eph (year_of civ birthDate);
          springEquinoxLongitude =
            (if birthDate < birthYearEquinox
             then getHeliocentricLongitude eph (mar_equinox eph (year_of civ birthDate - 1))
             else getHeliocentricLongitude eph birthYearEquinox);
          BirthLongitude = getHeliocentricLongitude eph birthDate
      in getDegree BirthLongitude springEquinoxLongitude)"

text \<open>
  The binary search loop of \<^verbatim>\<open>generateCalendarYear\<close>. The arguments after the ephemeris
  are the reference longitude, the target degree, the start and end degrees of the day
  and the loop variables \<open>low\<close>, \<open>high\<close> and \<open>iterations\<close>; the result is
  \<^verbatim>\<open>birthMomentCurrentIteration\<close>.
\<close>

function bisect ::
  "ephemeris \<Rightarrow> real \<Rightarrow> real \<Rightarrow> real \<Rightarrow> real \<Rightarrow> instant \<Rightarrow> instant \<Rightarrow> nat \<Rightarrow> instant option" where
  "bisect eph springEquinoxLongitude T SolarStartDegree SolarEndDegree low high iterations =
     (if low \<le> high \<and> iterations < MAX_BINARY_SEARCH_ITERATIONS then
        (let mid = low + (high - low) div 2;
             testDegree = getDegree (getHeliocentricLongitude eph mid) springEquinoxLongitude
         in if \<bar>testDegree - T\<bar> < DEGREE_PRECISION then Some mid
            else if testDegree < T then
              (if SolarStartDegree > SolarEndDegree \<and> testDegree < SolarEndDegree \<and> T > SolarStartDegree
               then bisect eph springEquinoxLongitude T SolarStartDegree SolarEndDegree
                      low (mid - 1) (iterations + 1)
               else bisect eph springEquinoxLongitude T SolarStartDegree SolarEndDegree
                      (mid + 1) high (iterations + 1))
            else
              (if SolarStartDegree > SolarEndDegree \<and> testDegree > SolarStartDegree \<and> T < SolarEndDegree
               then bisect eph springEquinoxLongitude T SolarStartDegree SolarEndDegree
                      (mid + 1) high (iterations + 1)
               else bisect eph springEquinoxLongitude T SolarStartDegree SolarEndDegree
                      low (mid - 1) (iterations + 1)))
      else None)"
  by pat_completeness auto
termination
  by (relation "measure (\<lambda>(eph, r, T, S, E, low, high, iterations). MAX_BINARY_SEARCH_ITERATIONS - iterations)") auto

text \<open>The search of one day: the candidate test, then the binary search over the day.\<close>

definition birthMomentCurrentIteration :: "ephemeris \<Rightarrow> real \<Rightarrow> real \<Rightarrow> DayInfo \<Rightarrow> instant option" where
  "birthMomentCurrentIteration eph springEquinoxLongitude T dayInfo =
     (let SolarStartDegree =
            getDegree (getHeliocentricLongitude eph (info_SolarStart dayInfo)) springEquinoxLongitude;
          SolarEndDegree =
            getDegree (getHeliocentricLongitude eph (info_SolarEnd dayInfo)) springEquinoxLongitude
      in if degreeRangeCoversBirthTarget SolarStartDegree SolarEndDegree T
         then bisect eph springEquinoxLongitude T SolarStartDegree SolarEndDegree
                (info_SolarStart dayInfo) (info_SolarEnd dayInfo) 0
         else None)"

definition equinoxSolsticeEvents :: "Events \<Rightarrow> event_entry list" where
  "equinoxSolsticeEvents eventList =
     [\<lparr>name = ''Spring Equinox'', description = ''The beginning of Spring.'', date = SpringEquinox eventList\<rparr>,
      \<lparr>name = ''Summer Solstice'', description = ''The longest day of the year.'', date = SummerSolstice eventList\<rparr>,
      \<lparr>name = ''Autumn Equinox'', description = ''The beginning of Autumn.'', date = AutumnEquinox eventList\<rparr>,
      \<lparr>name = ''Winter Solstice'', description = ''The shortest day of the year.'', date = WinterSolstice eventList\<rparr>,
      \<lparr>name = ''Aphelion'', description = ''Earth is farthest away from the Sun.'', date = Aphelion eventList\<rparr>,
      \<lparr>name = ''Perihelion'', description = ''The Earth is closest to the Sun.'', date = Perihelion eventList\<rparr>]"

definition BirthOrbit :: "instant \<Rightarrow> event_entry" where
  "BirthOrbit moment = \<lparr>name = ''BirthOrbit'', description = ''Birthday'', date = moment\<rparr>"

text \<open>The events of a day, from the birth moment held when the day is processed.\<close>

definition dayEvents :: "Events \<Rightarrow> instant \<Rightarrow> instant \<Rightarrow> event_entry list" where
  "dayEvents eventList finalFoundBirthMoment currentDate =
     (if format_YYYY_MM_DD finalFoundBirthMoment = format_YYYY_MM_DD currentDate
      then [BirthOrbit finalFoundBirthMoment]
      else filter (\<lambda>event. format_YYYY_MM_DD (date event) = format_YYYY_MM_DD currentDate)
             (equinoxSolsticeEvents eventList))"

datatype error = TypeError

text \<open>
  \<^verbatim>\<open>newCalendar[monthIndex].Days.push(day)\<close>, the day numbered by the length of the
  bucket. An index outside the array reads \<^verbatim>\<open>undefined\<close>, and the property access on it
  throws.
\<close>

definition pushDay :: "Month list \<Rightarrow> int \<Rightarrow> (nat \<Rightarrow> Day) \<Rightarrow> error + Month list" where
  "pushDay newCalendar index mkDay =
     (if index < 0 \<or> int (length newCalendar) \<le> index then Inl TypeError
      else let i = nat index; bucket = newCalendar ! i
           in Inr (newCalendar[i := bucket\<lparr>Days := Days bucket @ [mkDay (length (Days bucket) + 1)]\<rparr>]))"

text \<open>
  The parts of the body of the day loop of \<^verbatim>\<open>generateCalendarYear\<close>, in the order of the
  source. First \<open>finalFoundBirthMoment\<close> is replaced by the match of the day, when the
  search of the day has one.
\<close>

definition updateBirthMoment ::
  "ephemeris \<Rightarrow> Observer \<Rightarrow> real \<Rightarrow> real \<Rightarrow> instant \<Rightarrow> instant \<Rightarrow> instant" where
  "updateBirthMoment eph obs springEquinoxLongitude T currentDate finalFoundBirthMoment =
     (case birthMomentCurrentIteration eph springEquinoxLongitude T (getDayInfo eph obs currentDate) of
        Some moment \<Rightarrow> moment
      | None \<Rightarrow> finalFoundBirthMoment)"

text \<open>Then the degree at solar noon is taken; it selects the month and is stored in the day.\<close>

definition noonDegree :: "ephemeris \<Rightarrow> Observer \<Rightarrow> real \<Rightarrow> instant \<Rightarrow> real" where
  "noonDegree eph obs springEquinoxLongitude currentDate =
     (let currentHelioLongitude =
            getHeliocentricLongitude eph (info_SolarNoon (getDayInfo eph obs currentDate))
      in getDegree currentHelioLongitude springEquinoxLongitude)"

text \<open>
  Then the day object is built, from the birth moment as just updated; its number is one
  more than the length of the bucket it goes to.
\<close>

definition makeDay ::
  "ephemeris \<Rightarrow> Observer \<Rightarrow> Events \<Rightarrow> real \<Rightarrow> instant \<Rightarrow> instant \<Rightarrow> nat \<Rightarrow> Day" where
  "makeDay eph obs eventList degree finalFoundBirthMoment currentDate =
     (\<lambda>n. let dayInfo = getDayInfo eph obs currentDate
          in \<lparr>Number = n, Date = noon_utc currentDate,
              SolarStart = info_SolarStart dayInfo, SolarNoon = info_SolarNoon dayInfo,
              SolarEnd = info_SolarEnd dayInfo, MoonPhase = info_MoonPhase dayInfo,
              Delta = info_Delta dayInfo,
              SolarDegree = degree,
              Events = dayEvents eventList finalFoundBirthMoment currentDate\<rparr>)"

text \<open>
  The day loop, with its variables \<open>currentDate\<close>, \<open>finalFoundBirthMoment\<close> and
  \<open>newCalendar\<close>. It returns the last two when the loop ends.
\<close>

function sweep ::
  "ephemeris \<Rightarrow> Observer \<Rightarrow> Events \<Rightarrow> real \<Rightarrow> real \<Rightarrow> instant \<Rightarrow> instant \<Rightarrow> Month list
   \<Rightarrow> error + (instant \<times> Month list)" where
  "sweep eph obs eventList springEquinoxLongitude T currentDate finalFoundBirthMoment newCalendar =
     (if isBefore_day currentDate (SpringEquinox2 eventList) then
        (case pushDay newCalendar (monthIndex (noonDegree eph obs springEquinoxLongitude currentDate))
                (makeDay eph obs eventList (noonDegree eph obs springEquinoxLongitude currentDate)
                   (updateBirthMoment eph obs springEquinoxLongitude T currentDate finalFoundBirthMoment)
                   currentDate) of
           Inl e \<Rightarrow> Inl e
         | Inr cal \<Rightarrow> sweep eph obs eventList springEquinoxLongitude T
                       (currentDate + MILLISECONDS_PER_DAY)
                       (updateBirthMoment eph obs springEquinoxLongitude T currentDate finalFoundBirthMoment)
                       cal)
      else Inr (finalFoundBirthMoment, newCalendar))"
  by pat_completeness auto
termination
proof (relation "measure (\<lambda>(eph, obs, eventList, r, T, currentDate, f, c).
          nat (SpringEquinox2 eventList div MILLISECONDS_PER_DAY - currentDate div MILLISECONDS_PER_DAY))")
  show "wf (measure (\<lambda>(eph, obs, eventList, r, T, currentDate, f, c).
          nat (SpringEquinox2 eventList div MILLISECONDS_PER_DAY - currentDate div MILLISECONDS_PER_DAY)))"
    by simp
next
  fix eph :: ephemeris and obs :: Observer and eventList :: Events and r T :: real
    and currentDate f :: instant and c x2 :: "Month list"
  assume "isBefore_day currentDate (SpringEquinox2 eventList)"
  then have "currentDate div MILLISECONDS_PER_DAY < SpringEquinox2 eventList div MILLISECONDS_PER_DAY"
    unfolding isBefore_day_def endOf_day_def by linarith
  moreover have "(currentDate + MILLISECONDS_PER_DAY) div MILLISECONDS_PER_DAY
                 = currentDate div MILLISECONDS_PER_DAY + 1" by simp
  ultimately show "((eph, obs, eventList, r, T, currentDate + MILLISECONDS_PER_DAY,
                     updateBirthMoment eph obs r T currentDate f, x2),
                    (eph, obs, eventList, r, T, currentDate, f, c))
        \<in> measure (\<lambda>(eph, obs, eventList, r, T, currentDate, f, c).
          nat (SpringEquinox2 eventList div MILLISECONDS_PER_DAY - currentDate div MILLISECONDS_PER_DAY))"
    by simp
qed

definition initialCalendar :: "Month list" where
  "initialCalendar = map (\<lambda>m. \<lparr>Month = m, Name = Months_name m, TotalDays = 0, Days = []\<rparr>) [1..<13]"

definition finalize :: "Month list \<Rightarrow> Month list" where
  "finalize newCalendar = map (\<lambda>month. month\<lparr>TotalDays := length (Days month)\<rparr>) newCalendar"

definition generateCalendarYear ::
  "ephemeris \<Rightarrow> civil_time \<Rightarrow> Observer \<Rightarrow> Events \<Rightarrow> error + Month list" where
  "generateCalendarYear eph civ obs eventList =
     (let springEquinoxLongitude = getHeliocentricLongitude eph (SpringEquinox eventList);
          TRUE_TARGET_BIRTH_DEGREE = getBirthDegree eph civ (Birth eventList)
      in case sweep eph obs eventList springEquinoxLongitude TRUE_TARGET_BIRTH_DEGREE
                (SpringEquinox eventList) (Birth eventList) initialCalendar of
           Inl e \<Rightarrow> Inl e
         | Inr (finalFoundBirthMoment, newCalendar) \<Rightarrow> Inr (finalize newCalendar))"

text \<open>
  The value of \<open>finalFoundBirthMoment\<close> when the day loop of \<^verbatim>\<open>generateCalendarYear\<close>
  has ended, and the search result of the day \<open>k\<close> days after the Spring Equinox.
\<close>

definition locatedBirthMoment :: "ephemeris \<Rightarrow> civil_time \<Rightarrow> Observer \<Rightarrow> Events \<Rightarrow> error + instant" where
  "locatedBirthMoment eph civ obs eventList =
     (case sweep eph obs eventList (getHeliocentricLongitude eph (SpringEquinox eventList))
             (getBirthDegree eph civ (Birth eventList))
             (SpringEquinox eventList) (Birth eventList) initialCalendar of
        Inl e \<Rightarrow> Inl e
      | Inr (moment, newCalendar) \<Rightarrow> Inr moment)"

definition daySearch :: "ephemeris \<Rightarrow> civil_time \<Rightarrow> Observer \<Rightarrow> Events \<Rightarrow> nat \<Rightarrow> instant option" where
  "daySearch eph civ obs eventList k =
     birthMomentCurrentIteration eph (getHeliocentricLongitude eph (SpringEquinox eventList))
       (getBirthDegree eph civ (Birth eventList))
       (getDayInfo eph obs (SpringEquinox eventList + int k * MILLISECONDS_PER_DAY))"

definition sweepLength :: "Events \<Rightarrow> nat" where
  "sweepLength eventList =
     nat (format_YYYY_MM_DD (SpringEquinox2 eventList) - format_YYYY_MM_DD (SpringEquinox eventList))"

section \<open>The generator with the longitude cache\<close>

text \<open>
  The later revision of the generator keeps \<^verbatim>\<open>heliocentricLongitudeCache\<close>, a map from
  \<^verbatim>\<open>date.toISOString()\<close> to the longitude. The ISO string of an instant determines the
  instant, so the model keys the map by the instant. Every function that looks a
  longitude up takes the cache and returns it updated.
\<close>

type_synonym cache = "instant \<rightharpoonup> real"

definition getHeliocentricLongitude_cached :: "ephemeris \<Rightarrow> cache \<Rightarrow> instant \<Rightarrow> real \<times> cache" where
  "getHeliocentricLongitude_cached eph c d =
     (case c d of
        Some cachedValue \<Rightarrow> (cachedValue, c)
      | None \<Rightarrow>
          (let heliocentricLongitude = js_rem (HelioAngle eph d + DEGREES_IN_CIRCLE) DEGREES_IN_CIRCLE
           in (heliocentricLongitude, c(d \<mapsto> heliocentricLongitude))))"

definition getBirthDegree_cached :: "ephemeris \<Rightarrow> civil_time \<Rightarrow> cache \<Rightarrow> instant \<Rightarrow> real \<times> cache" where
  "getBirthDegree_cached eph civ c birthDate =
     (let birthYearEquinox = mar_equinox eph (year_of civ birthDate);
          (springEquinoxLongitude, c1) =
            (if birthDate < birthYearEquinox
             then getHeliocentricLongitude_cached eph c (mar_equinox eph (year_of civ birthDate - 1))
             else getHeliocentricLongitude_cached eph c birthYearEquinox);
          (BirthLongitude, c2) = getHeliocentricLongitude_cached eph c1 birthDate
      in (getDegree BirthLongitude springEquinoxLongitude, c2))"

function bisect_cached ::
  "ephemeris \<Rightarrow> cache \<Rightarrow> real \<Rightarrow> real \<Rightarrow> real \<Rightarrow> real \<Rightarrow> instant \<Rightarrow> instant \<Rightarrow> nat
   \<Rightarrow> instant option \<times> cache" where
  "bisect_cached eph c springEquinoxLongitude T SolarStartDegree SolarEndDegree low high iterations =
     (if low \<le> high \<and> iterations < MAX_BINARY_SEARCH_ITERATIONS then
        (let mid = low + (high - low) div 2;
             looked = getHeliocentricLongitude_cached eph c mid;
             testDegree = getDegree (fst looked) springEquinoxLongitude
         in if \<bar>testDegree - T\<bar> < DEGREE_PRECISION then (Some mid, snd looked)
            else if testDegree < T then
              (if SolarStartDegree > SolarEndDegree \<and> testDegree < SolarEndDegree \<and> T > SolarStartDegree
               then bisect_cached eph (snd looked) springEquinoxLongitude T SolarStartDegree SolarEndDegree
                      low (mid - 1) (iterations + 1)
               else bisect_cached eph (snd looked) springEquinoxLongitude T SolarStartDegree SolarEndDegree
                      (mid + 1) high (iterations + 1))
            else
              (if SolarStartDegree > SolarEndDegree \<and> testDegree > SolarStartDegree \<and> T < SolarEndDegree
               then bisect_cached eph (snd looked) springEquinoxLongitude T SolarStartDegree SolarEndDegree
                      (mid + 1) high (iterations + 1)
               else bisect_cached eph (snd looked) springEquinoxLongitude T SolarStartDegree SolarEndDegree
                      low (mid - 1) (iterations + 1)))
      else (None, c))"
  by pat_completeness auto
termination
  by (relation "measure (\<lambda>(eph, c, r, T, S, E, low, high, iterations). MAX_BINARY_SEARCH_ITERATIONS - iterations)") auto

definition birthMomentCurrentIteration_cached ::
  "ephemeris \<Rightarrow> cache \<Rightarrow> real \<Rightarrow> real \<Rightarrow> DayInfo \<Rightarrow> instant option \<times> cache" where
  "birthMomentCurrentIteration_cached eph c springEquinoxLongitude T dayInfo =
     (let (startLongitude, c1) = getHeliocentricLongitude_cached eph c (info_SolarStart dayInfo);
          SolarStartDegree = getDegree startLongitude springEquinoxLongitude;
          (endLongitude, c2) = getHeliocentricLongitude_cached eph c1 (info_SolarEnd dayInfo);
          SolarEndDegree = getDegree endLongitude springEquinoxLongitude
      in if degreeRangeCoversBirthTarget SolarStartDegree SolarEndDegree T
         then bisect_cached eph c2 springEquinoxLongitude T SolarStartDegree SolarEndDegree
                (info_SolarStart dayInfo) (info_SolarEnd dayInfo) 0
         else (None, c2))"

definition updateBirthMoment_cached ::
  "ephemeris \<Rightarrow> Observer \<Rightarrow> cache \<Rightarrow> real \<Rightarrow> real \<Rightarrow> instant \<Rightarrow> instant \<Rightarrow> instant \<times> cache" where
  "updateBirthMoment_cached eph obs c springEquinoxLongitude T currentDate finalFoundBirthMoment =
     (let (found, c1) = birthMomentCurrentIteration_cached eph c springEquinoxLongitude T
                          (getDayInfo eph obs currentDate)
      in (case found of Some moment \<Rightarrow> moment | None \<Rightarrow> finalFoundBirthMoment, c1))"

definition noonDegree_cached :: "ephemeris \<Rightarrow> Observer \<Rightarrow> cache \<Rightarrow> real \<Rightarrow> instant \<Rightarrow> real \<times> cache" where
  "noonDegree_cached eph obs c springEquinoxLongitude currentDate =
     (let (currentHelioLongitude, c1) =
            getHeliocentricLongitude_cached eph c (info_SolarNoon (getDayInfo eph obs currentDate))
      in (getDegree currentHelioLongitude springEquinoxLongitude, c1))"

function sweep_cached ::
  "ephemeris \<Rightarrow> Observer \<Rightarrow> Events \<Rightarrow> real \<Rightarrow> real \<Rightarrow> instant \<Rightarrow> instant \<Rightarrow> Month list \<Rightarrow> cache
   \<Rightarrow> (error + (instant \<times> Month list)) \<times> cache" where
  "sweep_cached eph obs eventList springEquinoxLongitude T currentDate finalFoundBirthMoment newCalendar c =
     (if isBefore_day currentDate (SpringEquinox2 eventList) then
        (let found = updateBirthMoment_cached eph obs c springEquinoxLongitude T currentDate
                       finalFoundBirthMoment;
             degree = noonDegree_cached eph obs (snd found) springEquinoxLongitude currentDate
         in case pushDay newCalendar (monthIndex (fst degree))
                   (makeDay eph obs eventList (fst degree) (fst found) currentDate) of
              Inl e \<Rightarrow> (Inl e, snd degree)
            | Inr cal \<Rightarrow> sweep_cached eph obs eventList springEquinoxLongitude T
                          (currentDate + MILLISECONDS_PER_DAY) (fst found) cal (snd degree))
      else (Inr (finalFoundBirthMoment, newCalendar), c))"
  by pat_completeness auto
termination
proof (relation "measure (\<lambda>(eph, obs, eventList, r, T, currentDate, f, cal, c).
          nat (SpringEquinox2 eventList div MILLISECONDS_PER_DAY - currentDate div MILLISECONDS_PER_DAY))")
  show "wf (measure (\<lambda>(eph, obs, eventList, r, T, currentDate, f, cal, c).
          nat (SpringEquinox2 eventList div MILLISECONDS_PER_DAY - currentDate div MILLISECONDS_PER_DAY)))"
    by simp
next
  fix eph :: ephemeris and obs :: Observer and eventList :: Events and r T :: real
    and currentDate f :: instant and cal x2 :: "Month list" and c :: cache
    and found :: "instant \<times> cache" and degree :: "real \<times> cache"
  assume "isBefore_day currentDate (SpringEquinox2 eventList)"
  then have "currentDate div MILLISECONDS_PER_DAY < SpringEquinox2 eventList div MILLISECONDS_PER_DAY"
    unfolding isBefore_day_def endOf_day_def by linarith
  moreover have "(currentDate + MILLISECONDS_PER_DAY) div MILLISECONDS_PER_DAY
                 = currentDate div MILLISECONDS_PER_DAY + 1" by simp
  ultimately show "((eph, obs, eventList, r, T, currentDate + MILLISECONDS_PER_DAY,
                     fst found, x2, snd degree),
                    (eph, obs, eventList, r, T, currentDate, f, cal, c))
        \<in> measure (\<lambda>(eph, obs, eventList, r, T, currentDate, f, cal, c).
          nat (SpringEquinox2 eventList div MILLISECONDS_PER_DAY - currentDate div MILLISECONDS_PER_DAY))"
    by simp
qed

definition generateCalendarYear_cached ::
  "ephemeris \<Rightarrow> civil_time \<Rightarrow> Observer \<Rightarrow> Events \<Rightarrow> cache \<Rightarrow> (error + Month list) \<times> cache" where
  "generateCalendarYear_cached eph civ obs eventList c =
     (let (springEquinoxLongitude, c1) = getHeliocentricLongitude_cached eph c (SpringEquinox eventList);
          (TRUE_TARGET_BIRTH_DEGREE, c2) = getBirthDegree_cached eph civ c1 (Birth eventList)
      in case sweep_cached eph obs eventList springEquinoxLongitude TRUE_TARGET_BIRTH_DEGREE
                (SpringEquinox eventList) (Birth eventList) initialCalendar c2 of
           (Inl e, c3) \<Rightarrow> (Inl e, c3)
         | (Inr (moment, newCalendar), c3) \<Rightarrow> (Inr (finalize newCalendar), c3))"

definition eventList :: "ephemeris \<Rightarrow> civil_time \<Rightarrow> int \<Rightarrow> instant \<Rightarrow> Events" where
  "eventList eph civ year birth =
     (let Apsis = SearchPlanetApsis eph (may_first civ year)
      in \<lparr>SpringEquinox = mar_equinox eph year,
          SummerSolstice = jun_solstice eph year,
          AutumnEquinox = sep_equinox eph year,
          WinterSolstice = dec_solstice eph year,
          SpringEquinox2 = mar_equinox eph (year + 1),
          Aphelion = Apsis,
          Perihelion = NextPlanetApsis eph Apsis,
          Birth = birth\<rparr>)"

text \<open>
  The module state: the cache, the calendar last generated and the observer.
  \<^verbatim>\<open>generateCalendar\<close> sets the observer, clears the cache, builds the events and runs
  \<^verbatim>\<open>generateCalendarYear\<close>, which replaces the calendar when it does not throw.
\<close>

record globals =
  heliocentricLongitudeCache :: cache
  calendar :: "Month list"
  observer :: "Observer option"

definition generateCalendar ::
  "ephemeris \<Rightarrow> civil_time \<Rightarrow> int \<Rightarrow> string \<Rightarrow> string \<Rightarrow> string \<Rightarrow> real \<Rightarrow> real \<Rightarrow> real \<Rightarrow> globals
   \<Rightarrow> (error + Month list) \<times> globals" where
  "generateCalendar eph civ year birthDate birthTime timezone lat lon elevation g =
     (let obs = \<lparr>latitude = lat, longitude = lon, height = elevation\<rparr>;
          g1 = g\<lparr>observer := Some obs\<rparr>;
          birthDateTime = tz_parse civ birthDate birthTime timezone;
          g2 = g1\<lparr>heliocentricLongitudeCache := Map.empty\<rparr>;
          events = eventList eph civ year birthDateTime
      in case generateCalendarYear_cached eph civ obs events (heliocentricLongitudeCache g2) of
           (Inl e, c) \<Rightarrow> (Inl e, g2\<lparr>heliocentricLongitudeCache := c\<rparr>)
         | (Inr newCalendar, c) \<Rightarrow>
             (Inr newCalendar, g2\<lparr>heliocentricLongitudeCache := c, calendar := newCalendar\<rparr>))"

text \<open>A cache is sound when every entry is the longitude the ephemeris gives.\<close>

definition cacheSound :: "ephemeris \<Rightarrow> cache \<Rightarrow> bool" where
  "cacheSound eph c = (\<forall>d v. c d = Some v \<longrightarrow> v = getHeliocentricLongitude eph d)"

section \<open>Predicates of the statements\<close>

text \<open>The dates of all days of a calendar, and the dates the day loop visits.\<close>

definition allDates :: "Month list \<Rightarrow> instant multiset" where
  "allDates cal = sum_list (map (\<lambda>month. mset (map Date (Days month))) cal)"

definition sweepDates :: "instant \<Rightarrow> instant \<Rightarrow> instant list" where
  "sweepDates currentDate springEquinox2 =
     map (\<lambda>k. noon_utc (currentDate + int k * MILLISECONDS_PER_DAY))
       [0..<nat (format_YYYY_MM_DD springEquinox2 - format_YYYY_MM_DD currentDate)]"



section \<open>A model ephemeris\<close>

text \<open>
  An ephemeris to run the generator on: the Earth moves on a circle at one degree per
  87660000 ms (a year of 365.25 days), the Spring Equinox of 2025 is at
  2025-03-20 09:01:00 UTC, solar noon comes at the same UTC time every day, four minutes
  earlier per degree of eastern longitude, and the solar day runs from the solar
  midnight before it to the one after.
\<close>

definition wrap180 :: "real \<Rightarrow> real" where
  "wrap180 x = x - 360 * of_int \<lfloor>(x + 180) / 360\<rfloor>"

definition SE2025 :: instant where
  "SE2025 = 1742461260000"

definition solarNoonOfDay :: "Observer \<Rightarrow> int" where
  "solarNoonOfDay obs = 43200000 - \<lfloor>longitude obs * 240000\<rfloor>"

definition uniformOrbit :: ephemeris where
  "uniformOrbit =
     \<lparr>HelioAngle = (\<lambda>t. wrap180 (180 + real_of_int (t - SE2025) / 87660000)),
      mar_equinox = (\<lambda>y. SE2025 + (y - 2025) * 31557600000),
      jun_solstice = (\<lambda>y. SE2025 + (y - 2025) * 31557600000 + 8013600000),
      sep_equinox = (\<lambda>y. SE2025 + (y - 2025) * 31557600000 + 16113600000),
      dec_solstice = (\<lambda>y. SE2025 + (y - 2025) * 31557600000 + 23878800000),
      SearchPlanetApsis = (\<lambda>t. t + 5400000000),
      NextPlanetApsis = (\<lambda>t. t + 15778800000),
      SearchHourAngle = (\<lambda>obs ha t dir.
         if ha = 0 then t + (solarNoonOfDay obs - t) mod MILLISECONDS_PER_DAY
         else if dir < 0 then t - (t - (solarNoonOfDay obs + 43200000)) mod MILLISECONDS_PER_DAY
         else t + (solarNoonOfDay obs + 43200000 - t) mod MILLISECONDS_PER_DAY),
      MoonPhaseAngle = (\<lambda>t. 360 * frac (real_of_int t / 2551442877))\<rparr>"

text \<open>The civil year by the mean length of the Gregorian year; exact away from New Year.\<close>

definition utcCivil :: civil_time where
  "utcCivil =
     \<lparr>year_of = (\<lambda>t. 1970 + t div 31556952000),
      tz_parse = (\<lambda>birthDate birthTime timezone. 1742860560000),
      may_first = (\<lambda>y. (y - 1970) * 31556952000 + 10368000000)\<rparr>"

definition berlin :: Observer where
  "berlin = \<lparr>latitude = 105 / 2, longitude = 67 / 5, height = 0\<rparr>"

text \<open>
  The events of 2025 under this ephemeris with a given birth instant, and the same with
  the next Spring Equinox two days after the first.
\<close>

definition events2025 :: "instant \<Rightarrow> Events" where
  "events2025 birth =
     \<lparr>SpringEquinox = SE2025, SummerSolstice = SE2025 + 8013600000,
      AutumnEquinox = SE2025 + 16113600000, WinterSolstice = SE2025 + 23878800000,
      SpringEquinox2 = SE2025 + 31557600000, Aphelion = 1751500800000,
      Perihelion = 1767279600000, Birth = birth\<rparr>"

definition eventsTwoDays :: "instant \<Rightarrow> Events" where
  "eventsTwoDays birth = (events2025 birth)\<lparr>SpringEquinox2 := SE2025 + 2 * MILLISECONDS_PER_DAY\<rparr>"

text \<open>
  The value of \<open>finalFoundBirthMoment\<close> that the events of the day \<open>k\<close> days after
  \<open>currentDate\<close> are built from: the loop variable after the searches of days 0 to \<open>k\<close>.
\<close>

fun birthMomentAt ::
  "ephemeris \<Rightarrow> Observer \<Rightarrow> real \<Rightarrow> real \<Rightarrow> instant \<Rightarrow> instant \<Rightarrow> nat \<Rightarrow> instant" where
  "birthMomentAt eph obs r T currentDate moment 0 = updateBirthMoment eph obs r T currentDate moment"
| "birthMomentAt eph obs r T currentDate moment (Suc k) =
     birthMomentAt eph obs r T (currentDate + MILLISECONDS_PER_DAY)
       (updateBirthMoment eph obs r T currentDate moment) k"

definition allDays :: "Month list \<Rightarrow> Day list" where
  "allDays cal = concat (map Days cal)"

definition carriesBirthOrbit :: "Day \<Rightarrow> bool" where
  "carriesBirthOrbit d = list_ex (\<lambda>e. name e = ''BirthOrbit'') (Events d)"

section \<open>Properties of the normalizer\<close>

lemma js_rem_nonneg:
  assumes "0 \<le> a"
  shows "js_rem a 360 = mod360 a" and "0 \<le> js_rem a 360" and "js_rem a 360 < 360"
proof -
  have t: "js_trunc (a / 360) = \<lfloor>a / 360\<rfloor>"
    using assms by (simp add: js_trunc_def)
  show "js_rem a 360 = mod360 a"
    by (simp add: js_rem_def mod360_def t)
  have lo: "of_int \<lfloor>a / 360\<rfloor> \<le> a / 360" by (rule of_int_floor_le)
  have hi: "a / 360 < of_int \<lfloor>a / 360\<rfloor> + 1" by linarith
  show "0 \<le> js_rem a 360" using lo unfolding js_rem_def t by linarith
  show "js_rem a 360 < 360" using hi unfolding js_rem_def t by linarith
qed

lemma toFixed2_range:
  assumes "0 \<le> x" and "x < 360"
  shows "toFixed2 x = round2 x" and "0 \<le> toFixed2 x" and "toFixed2 x \<le> 360"
proof -
  show e: "toFixed2 x = round2 x"
    using assms by (simp add: toFixed2_def round2_def)
  have "0 \<le> \<lfloor>x * 100 + 1 / 2\<rfloor>" using assms by simp
  then show "0 \<le> toFixed2 x" by (simp add: e round2_def)
  have "x * 100 + 1 / 2 < 36001" using assms by simp
  then have "\<lfloor>x * 100 + 1 / 2\<rfloor> < 36001" by (simp add: floor_less_iff)
  then have "\<lfloor>x * 100 + 1 / 2\<rfloor> \<le> 36000" by simp
  then have "(of_int \<lfloor>x * 100 + 1 / 2\<rfloor> :: real) \<le> 36000" by linarith
  then show "toFixed2 x \<le> 360" by (simp add: e round2_def)
qed

lemma getDegree_range:
  assumes "0 \<le> l - r + 360"
  shows "0 \<le> getDegree l r" and "getDegree l r \<le> 360"
  using assms js_rem_nonneg(2,3) [of "l - r + 360"] toFixed2_range(2,3)
  by (simp_all add: getDegree_def)

lemma monthIndex_range:
  assumes "0 \<le> v"
  shows "0 \<le> monthIndex v" and "monthIndex v \<le> 11"
proof -
  have "0 \<le> \<lfloor>v / 30\<rfloor>" using assms by simp
  then show "0 \<le> monthIndex v" by (simp add: monthIndex_def Let_def)
  show "monthIndex v \<le> 11" by (simp add: monthIndex_def Let_def)
qed

lemma getDegree_exact:
  assumes "0 \<le> l - r + 360"
  shows "getDegree l r = normalize_spec l r"
proof -
  let ?a = "l - r + 360"
  have "getDegree l r = toFixed2 (mod360 ?a)"
    using js_rem_nonneg(1) [OF assms] by (simp add: getDegree_def)
  also have "\<dots> = round2 (mod360 ?a)"
    using js_rem_nonneg [OF assms] toFixed2_range(1) [of "mod360 ?a"] by simp
  finally show ?thesis by (simp add: normalize_spec_def)
qed

lemma getDegree_fl_id: "getDegree_fl (\<lambda>x. x) l r = getDegree l r"
  by (simp add: getDegree_fl_def getDegree_def)





text \<open>
  C5. A solar day is a candidate exactly when, in the normal case \<open>D_start \<le> D_end\<close>,
  the target lies between the two degrees, and, in the wrap case \<open>D_start > D_end\<close>, the
  target is at or above the start or at or below the end; the search of a day enters the
  bisection exactly on a candidate day and has no match otherwise.
\<close>

theorem degreeRangeCoversBirthTarget_iff:
  "degreeRangeCoversBirthTarget D_start D_end T =
     (if D_start \<le> D_end then D_start \<le> T \<and> T \<le> D_end else T \<ge> D_start \<or> T \<le> D_end) \<and>
   degreeRangeCoversBirthTarget D_start D_end T = candidate_spec D_start D_end T \<and>
   birthMomentCurrentIteration eph r T dayInfo =
     (if candidate_spec (getDegree (getHeliocentricLongitude eph (info_SolarStart dayInfo)) r)
           (getDegree (getHeliocentricLongitude eph (info_SolarEnd dayInfo)) r) T
      then bisect eph r T (getDegree (getHeliocentricLongitude eph (info_SolarStart dayInfo)) r)
             (getDegree (getHeliocentricLongitude eph (info_SolarEnd dayInfo)) r)
             (info_SolarStart dayInfo) (info_SolarEnd dayInfo) 0
      else None)"
proof -
  have c: "degreeRangeCoversBirthTarget a b t = candidate_spec a b t" for a b t
    by (auto simp: degreeRangeCoversBirthTarget_def candidate_spec_def)
  show ?thesis
    by (simp add: c [symmetric] birthMomentCurrentIteration_def Let_def)
       (simp add: degreeRangeCoversBirthTarget_def)
qed

text \<open>
  C10. For every value in the closed interval [0, 360], the value 360 included, the month
  index lies in [0, 11]; the value 360 is sent to bucket 0.
\<close>

theorem monthIndex_in_bounds:
  assumes "0 \<le> v" and "v \<le> 360"
  shows "0 \<le> monthIndex v \<and> monthIndex v \<le> 11 \<and> nat (monthIndex v) < 12"
  using monthIndex_range [OF assms(1)] by simp

theorem monthIndex_in_bounds_witness:
  "monthIndex 360 = 0 \<and> 0 \<le> monthIndex 360 \<and> monthIndex 360 \<le> 11 \<and> nat (monthIndex 360) < 12"
proof -
  have "monthIndex 360 = 0" by (simp add: monthIndex_def)
  then show ?thesis using monthIndex_in_bounds [of 360] by simp
qed


section \<open>The day loop\<close>

declare sweep.simps [simp del] bisect.simps [simp del]
declare sweep_cached.simps [simp del] bisect_cached.simps [simp del]

lemma pushDay_Inr:
  assumes "pushDay cal i mk = Inr cal1"
  shows "0 \<le> i" and "nat i < length cal"
    and "cal1 = cal[nat i := (cal ! nat i)\<lparr>Days := Days (cal ! nat i) @ [mk (length (Days (cal ! nat i)) + 1)]\<rparr>]"
  using assms by (auto simp: pushDay_def Let_def split: if_splits)

lemma pushDay_total:
  assumes "0 \<le> i" and "i < int (length cal)"
  shows "\<exists>cal1. pushDay cal i mk = Inr cal1"
  using assms by (simp add: pushDay_def Let_def)

lemma pushDay_length: "pushDay cal i mk = Inr cal1 \<Longrightarrow> length cal1 = length cal"
  by (auto dest: pushDay_Inr)

lemma sum_list_map_update:
  fixes f :: "'a \<Rightarrow> 'b::comm_monoid_add"
  shows "i < length xs \<Longrightarrow> sum_list (map f (xs[i := y])) + f (xs ! i) = sum_list (map f xs) + f y"
proof (induction xs arbitrary: i)
  case Nil
  then show ?case by simp
next
  case (Cons x xs)
  show ?case
  proof (cases i)
    case 0
    then show ?thesis by (simp add: ac_simps)
  next
    case (Suc j)
    with Cons.prems have "j < length xs" by simp
    from Cons.IH [OF this] show ?thesis using Suc by (simp add: ac_simps)
  qed
qed

lemma pushDay_allDates:
  assumes "pushDay cal i mk = Inr cal1"
  shows "allDates cal1 = allDates cal + {#Date (mk (length (Days (cal ! nat i)) + 1))#}"
proof -
  let ?f = "\<lambda>month. mset (map Date (Days month))"
  let ?b = "cal ! nat i"
  let ?b' = "?b\<lparr>Days := Days ?b @ [mk (length (Days ?b) + 1)]\<rparr>"
  from pushDay_Inr [OF assms] have i: "nat i < length cal" and c: "cal1 = cal[nat i := ?b']" by auto
  have "sum_list (map ?f (cal[nat i := ?b'])) + ?f ?b = sum_list (map ?f cal) + ?f ?b'"
    by (rule sum_list_map_update [OF i])
  then have "allDates cal1 + ?f ?b = allDates cal + {#Date (mk (length (Days ?b) + 1))#} + ?f ?b"
    by (simp add: allDates_def c)
  then show ?thesis by simp
qed

lemma pushDay_prefix:
  assumes "pushDay cal i mk = Inr cal1" and "j < length cal"
  shows "prefix (Days (cal ! j)) (Days (cal1 ! j))"
proof -
  from pushDay_Inr [OF assms(1)] have i: "nat i < length cal"
    and c: "cal1 = cal[nat i := (cal ! nat i)\<lparr>Days := Days (cal ! nat i) @ [mk (length (Days (cal ! nat i)) + 1)]\<rparr>]"
    by auto
  show ?thesis using assms(2) i by (cases "j = nat i") (simp_all add: c)
qed

lemma day_less_iff:
  fixes q p r :: int
  assumes "0 \<le> r" and "r < 86400000"
  shows "q * 86400000 + 86399999 < p * 86400000 + r \<longleftrightarrow> q < p"
  using assms by auto

lemma isBefore_day_iff: "isBefore_day a b \<longleftrightarrow> format_YYYY_MM_DD a < format_YYYY_MM_DD b"
proof -
  have b: "b = (b div 86400000) * 86400000 + b mod 86400000" by simp
  have "isBefore_day a b \<longleftrightarrow>
        (a div 86400000) * 86400000 + 86399999 < (b div 86400000) * 86400000 + b mod 86400000"
    unfolding isBefore_day_def endOf_day_def using b by simp
  also have "\<dots> \<longleftrightarrow> a div 86400000 < b div 86400000"
    by (rule day_less_iff) simp_all
  finally show ?thesis by (simp add: format_YYYY_MM_DD_def)
qed

lemma format_next_day: "format_YYYY_MM_DD (t + MILLISECONDS_PER_DAY) = format_YYYY_MM_DD t + 1"
  by (simp add: format_YYYY_MM_DD_def)

lemma sweepDates_stop: "\<not> isBefore_day cur se2 \<Longrightarrow> sweepDates cur se2 = []"
  by (simp add: sweepDates_def isBefore_day_iff)

lemma days_left_Suc:
  assumes "isBefore_day cur se2"
  obtains m where "nat (format_YYYY_MM_DD se2 - format_YYYY_MM_DD cur) = Suc m"
    and "nat (format_YYYY_MM_DD se2 - format_YYYY_MM_DD (cur + MILLISECONDS_PER_DAY)) = m"
proof -
  let ?n = "nat (format_YYYY_MM_DD se2 - format_YYYY_MM_DD cur)"
  from assms obtain m where n: "?n = Suc m"
    by (cases ?n) (auto simp: isBefore_day_iff)
  then have "nat (format_YYYY_MM_DD se2 - format_YYYY_MM_DD (cur + MILLISECONDS_PER_DAY)) = m"
    by (simp add: format_next_day)
  with n that show ?thesis by blast
qed

lemma sweepDates_step:
  assumes "isBefore_day cur se2"
  shows "sweepDates cur se2 = noon_utc cur # sweepDates (cur + MILLISECONDS_PER_DAY) se2"
proof -
  from days_left_Suc [OF assms] obtain m where
    n: "nat (format_YYYY_MM_DD se2 - format_YYYY_MM_DD cur) = Suc m"
    and m: "nat (format_YYYY_MM_DD se2 - format_YYYY_MM_DD (cur + MILLISECONDS_PER_DAY)) = m"
    by blast
  have "[0..<Suc m] = 0 # map Suc [0..<m]"
    by (simp add: upt_conv_Cons map_Suc_upt del: upt_Suc)
  then show ?thesis
    unfolding sweepDates_def n m by (simp add: o_def algebra_simps)
qed

lemma sweep_stop:
  "\<not> isBefore_day cur (SpringEquinox2 ev) \<Longrightarrow> sweep eph obs ev r T cur fin cal = Inr (fin, cal)"
  by (subst sweep.simps) simp

lemma sweep_unfold:
  assumes "isBefore_day cur (SpringEquinox2 ev)"
    and "pushDay cal (monthIndex (noonDegree eph obs r cur))
           (makeDay eph obs ev (noonDegree eph obs r cur) (updateBirthMoment eph obs r T cur fin) cur) = Inr cal1"
  shows "sweep eph obs ev r T cur fin cal =
         sweep eph obs ev r T (cur + MILLISECONDS_PER_DAY) (updateBirthMoment eph obs r T cur fin) cal1"
  using assms by (subst sweep.simps) simp

lemma sweep_step:
  assumes "isBefore_day cur (SpringEquinox2 ev)"
    and "sweep eph obs ev r T cur fin cal = Inr res"
  obtains cal1 where
    "pushDay cal (monthIndex (noonDegree eph obs r cur))
       (makeDay eph obs ev (noonDegree eph obs r cur) (updateBirthMoment eph obs r T cur fin) cur) = Inr cal1"
    and "sweep eph obs ev r T (cur + MILLISECONDS_PER_DAY)
           (updateBirthMoment eph obs r T cur fin) cal1 = Inr res"
  using assms by (subst (asm) sweep.simps) (auto split: sum.splits)

lemma makeDay_simps [simp]:
  "Date (makeDay eph obs ev deg found cur n) = noon_utc cur"
  "Number (makeDay eph obs ev deg found cur n) = n"
  "SolarDegree (makeDay eph obs ev deg found cur n) = deg"
  "Events (makeDay eph obs ev deg found cur n) = dayEvents ev found cur"
  by (simp_all add: makeDay_def Let_def)



lemma sweep_allDates:
  "sweep eph obs ev r T cur fin cal = Inr (fin', cal') \<Longrightarrow>
     length cal' = length cal \<and>
     allDates cal' = allDates cal + mset (sweepDates cur (SpringEquinox2 ev))"
proof (induction eph obs ev r T cur fin cal rule: sweep.induct)
  case (1 eph obs ev r T cur fin cal)
  show ?case
  proof (cases "isBefore_day cur (SpringEquinox2 ev)")
    case False
    then show ?thesis using "1.prems" by (simp add: sweep_stop sweepDates_stop)
  next
    case True
    from sweep_step [OF True "1.prems"] obtain cal1 where
      p: "pushDay cal (monthIndex (noonDegree eph obs r cur))
            (makeDay eph obs ev (noonDegree eph obs r cur) (updateBirthMoment eph obs r T cur fin) cur) = Inr cal1"
      and s: "sweep eph obs ev r T (cur + MILLISECONDS_PER_DAY)
                (updateBirthMoment eph obs r T cur fin) cal1 = Inr (fin', cal')"
      by blast
    from "1.IH" [OF True p s] pushDay_length [OF p] pushDay_allDates [OF p]
    show ?thesis by (simp add: sweepDates_step [OF True])
  qed
qed





lemma sweep_prefix:
  "sweep eph obs ev r T cur fin cal = Inr (fin', cal') \<Longrightarrow> j < length cal \<Longrightarrow>
     prefix (Days (cal ! j)) (Days (cal' ! j))"
proof (induction eph obs ev r T cur fin cal rule: sweep.induct)
  case (1 eph obs ev r T cur fin cal)
  show ?case
  proof (cases "isBefore_day cur (SpringEquinox2 ev)")
    case False
    then show ?thesis using "1.prems" by (simp add: sweep_stop)
  next
    case True
    from sweep_step [OF True "1.prems"(1)] obtain cal1 where
      p: "pushDay cal (monthIndex (noonDegree eph obs r cur))
            (makeDay eph obs ev (noonDegree eph obs r cur) (updateBirthMoment eph obs r T cur fin) cur) = Inr cal1"
      and s: "sweep eph obs ev r T (cur + MILLISECONDS_PER_DAY)
                (updateBirthMoment eph obs r T cur fin) cal1 = Inr (fin', cal')"
      by blast
    have "j < length cal1" using pushDay_length [OF p] "1.prems"(2) by simp
    from "1.IH" [OF True p s this] pushDay_prefix [OF p "1.prems"(2)]
    show ?thesis by (rule prefix_order.trans [rotated])
  qed
qed



lemma sweep_no_match:
  "sweep eph obs ev r T cur fin cal = Inr (fin', cal') \<Longrightarrow>
   (\<forall>k < nat (format_YYYY_MM_DD (SpringEquinox2 ev) - format_YYYY_MM_DD cur).
      birthMomentCurrentIteration eph r T (getDayInfo eph obs (cur + int k * MILLISECONDS_PER_DAY)) = None) \<Longrightarrow>
   fin' = fin"
proof (induction eph obs ev r T cur fin cal rule: sweep.induct)
  case (1 eph obs ev r T cur fin cal)
  show ?case
  proof (cases "isBefore_day cur (SpringEquinox2 ev)")
    case False
    then show ?thesis using "1.prems" by (simp add: sweep_stop)
  next
    case True
    from sweep_step [OF True "1.prems"(1)] obtain cal1 where
      p: "pushDay cal (monthIndex (noonDegree eph obs r cur))
            (makeDay eph obs ev (noonDegree eph obs r cur) (updateBirthMoment eph obs r T cur fin) cur) = Inr cal1"
      and s: "sweep eph obs ev r T (cur + MILLISECONDS_PER_DAY)
                (updateBirthMoment eph obs r T cur fin) cal1 = Inr (fin', cal')"
      by blast
    let ?n = "nat (format_YYYY_MM_DD (SpringEquinox2 ev) - format_YYYY_MM_DD cur)"
    from days_left_Suc [OF True] obtain m where n: "?n = Suc m"
      and m: "nat (format_YYYY_MM_DD (SpringEquinox2 ev)
                    - format_YYYY_MM_DD (cur + MILLISECONDS_PER_DAY)) = m"
      by blast
    have "birthMomentCurrentIteration eph r T (getDayInfo eph obs (cur + int 0 * MILLISECONDS_PER_DAY)) = None"
      using "1.prems"(2) [rule_format, of 0] n by simp
    then have u: "updateBirthMoment eph obs r T cur fin = fin"
      by (simp add: updateBirthMoment_def)
    have "\<forall>k<m. birthMomentCurrentIteration eph r T
             (getDayInfo eph obs (cur + MILLISECONDS_PER_DAY + int k * MILLISECONDS_PER_DAY)) = None"
    proof (intro allI impI)
      fix k assume "k < m"
      then have "Suc k < ?n" using n by simp
      with "1.prems"(2) have "birthMomentCurrentIteration eph r T
             (getDayInfo eph obs (cur + int (Suc k) * MILLISECONDS_PER_DAY)) = None" by blast
      then show "birthMomentCurrentIteration eph r T
             (getDayInfo eph obs (cur + MILLISECONDS_PER_DAY + int k * MILLISECONDS_PER_DAY)) = None"
        by (simp add: algebra_simps)
    qed
    with "1.IH" [OF True p s] m u show ?thesis by simp
  qed
qed

lemma getHeliocentricLongitude_range:
  assumes "- 180 \<le> HelioAngle eph t"
  shows "0 \<le> getHeliocentricLongitude eph t" and "getHeliocentricLongitude eph t < 360"
  using js_rem_nonneg(2,3) [of "HelioAngle eph t + 360"] assms
  by (simp_all add: getHeliocentricLongitude_def)

lemma noonDegree_nonneg:
  assumes "\<forall>t. - 180 \<le> HelioAngle eph t" and "r \<le> 360"
  shows "0 \<le> noonDegree eph obs r cur"
proof -
  let ?l = "getHeliocentricLongitude eph (info_SolarNoon (getDayInfo eph obs cur))"
  have "0 \<le> ?l" using assms(1) getHeliocentricLongitude_range(1) by blast
  then have "0 \<le> ?l - r + 360" using assms(2) by simp
  from getDegree_range(1) [OF this] show ?thesis by (simp add: noonDegree_def)
qed

lemma sweep_total:
  "\<forall>t. - 180 \<le> HelioAngle eph t \<Longrightarrow> r \<le> 360 \<Longrightarrow> length cal = 12 \<Longrightarrow>
     \<exists>res. sweep eph obs ev r T cur fin cal = Inr res"
proof (induction eph obs ev r T cur fin cal rule: sweep.induct)
  case (1 eph obs ev r T cur fin cal)
  show ?case
  proof (cases "isBefore_day cur (SpringEquinox2 ev)")
    case False
    then show ?thesis by (simp add: sweep_stop)
  next
    case True
    have r: "\<forall>t. - 180 \<le> HelioAngle eph t" "r \<le> 360" using "1.prems" by auto
    have "0 \<le> noonDegree eph obs r cur" by (rule noonDegree_nonneg [OF r])
    from monthIndex_range [OF this]
    have "0 \<le> monthIndex (noonDegree eph obs r cur)"
      and "monthIndex (noonDegree eph obs r cur) < int (length cal)"
      using "1.prems"(3) by simp_all
    from pushDay_total [OF this] obtain cal1 where
      p: "pushDay cal (monthIndex (noonDegree eph obs r cur))
            (makeDay eph obs ev (noonDegree eph obs r cur) (updateBirthMoment eph obs r T cur fin) cur) = Inr cal1"
      by blast
    have "length cal1 = 12" using pushDay_length [OF p] "1.prems"(3) by simp
    from "1.IH" [OF True p r this] obtain res where
      "sweep eph obs ev r T (cur + MILLISECONDS_PER_DAY)
         (updateBirthMoment eph obs r T cur fin) cal1 = Inr res" by blast
    then have "sweep eph obs ev r T cur fin cal = Inr res"
      using sweep_unfold [OF True p] by simp
    then show ?thesis by blast
  qed
qed

section \<open>The generated year\<close>

lemma initialCalendar_length: "length initialCalendar = 12"
  by (simp add: initialCalendar_def)


lemma allDates_empty_months: "allDates (map (\<lambda>m. \<lparr>Month = m, Name = f m, TotalDays = 0, Days = []\<rparr>) xs) = {#}"
  by (induction xs) (simp_all add: allDates_def)

lemma allDates_initialCalendar: "allDates initialCalendar = {#}"
  unfolding initialCalendar_def by (rule allDates_empty_months)


lemma size_allDates: "size (allDates cal) = sum_list (map (\<lambda>month. length (Days month)) cal)"
  by (induction cal) (simp_all add: allDates_def)

lemma finalize_total: "sum_list (map TotalDays (finalize cal)) = size (allDates cal)"
  by (simp add: finalize_def o_def size_allDates)

lemma finalize_facts:
  "length (finalize cal) = length cal"
  "allDates (finalize cal) = allDates cal"
  "list_all (\<lambda>month. TotalDays month = length (Days month)) (finalize cal)"
  "i < length cal \<Longrightarrow> Days (finalize cal ! i) = Days (cal ! i)"
  by (simp_all add: finalize_def allDates_def o_def list_all_iff)


lemma generateCalendarYear_Inr:
  assumes "generateCalendarYear eph civ obs ev = Inr months"
  obtains moment cal where
    "sweep eph obs ev (getHeliocentricLongitude eph (SpringEquinox ev)) (getBirthDegree eph civ (Birth ev))
       (SpringEquinox ev) (Birth ev) initialCalendar = Inr (moment, cal)"
    and "months = finalize cal"
  using assms by (auto simp: generateCalendarYear_def Let_def split: sum.splits prod.splits)

lemma generateCalendarYear_total:
  assumes "\<forall>t. - 180 \<le> HelioAngle eph t"
  shows "\<exists>months. generateCalendarYear eph civ obs ev = Inr months"
proof -
  have "getHeliocentricLongitude eph (SpringEquinox ev) \<le> 360"
    using getHeliocentricLongitude_range(2) [of eph "SpringEquinox ev"] assms by (simp add: less_imp_le)
  from sweep_total [OF assms this initialCalendar_length]
  obtain res where "sweep eph obs ev (getHeliocentricLongitude eph (SpringEquinox ev))
       (getBirthDegree eph civ (Birth ev)) (SpringEquinox ev) (Birth ev) initialCalendar = Inr res"
    by blast
  then show ?thesis
    by (cases res) (simp add: generateCalendarYear_def Let_def)
qed

lemma wrap180_lower: "- 180 \<le> wrap180 x"
proof -
  define y where "y = (x + 180) / 360"
  have x: "x = 360 * y - 180" unfolding y_def by (simp add: add_divide_distrib)
  have "of_int \<lfloor>y\<rfloor> \<le> y" by (rule of_int_floor_le)
  then have "- 180 \<le> x - 360 * of_int \<lfloor>y\<rfloor>" unfolding x by linarith
  then show ?thesis by (simp add: wrap180_def y_def)
qed

lemma uniformOrbit_range: "\<forall>t. - 180 \<le> HelioAngle uniformOrbit t"
  by (simp add: uniformOrbit_def wrap180_lower)

lemmas model_defs =
  uniformOrbit_def utcCivil_def berlin_def events2025_def eventsTwoDays_def SE2025_def
  solarNoonOfDay_def wrap180_def

lemmas eval_defs =
  getHeliocentricLongitude_def getDegree_def js_rem_def js_trunc_def toFixed2_def
  getDayInfo_def moonPhaseLabel_def getBirthDegree_def degreeRangeCoversBirthTarget_def
  birthMomentCurrentIteration_def format_YYYY_MM_DD_def

text \<open>
  C8. When the generator returns, there are 12 month buckets, the dates of their days are
  exactly the dates the day loop visits (each once, from the day of the Spring Equinox up
  to the day before the day of the next one), each \<open>TotalDays\<close> is the length of
  \<open>Days\<close>, and the totals add up to the number of these days.
\<close>

theorem month_totals_cover_the_year:
  assumes "generateCalendarYear eph civ obs ev = Inr months"
  shows "length months = 12 \<and>
         allDates months = mset (sweepDates (SpringEquinox ev) (SpringEquinox2 ev)) \<and>
         list_all (\<lambda>month. TotalDays month = length (Days month)) months \<and>
         sum_list (map TotalDays months) = sweepLength ev"
proof -
  from generateCalendarYear_Inr [OF assms] obtain moment cal where
    s: "sweep eph obs ev (getHeliocentricLongitude eph (SpringEquinox ev)) (getBirthDegree eph civ (Birth ev))
          (SpringEquinox ev) (Birth ev) initialCalendar = Inr (moment, cal)"
    and m: "months = finalize cal" by blast
  from sweep_allDates [OF s] have l: "length cal = 12"
    and a: "allDates cal = mset (sweepDates (SpringEquinox ev) (SpringEquinox2 ev))"
    by (simp_all add: initialCalendar_length allDates_initialCalendar)
  have "size (allDates cal) = sweepLength ev"
    by (simp add: a sweepDates_def sweepLength_def)
  then show ?thesis using l a by (simp add: m finalize_facts finalize_total)
qed

theorem month_totals_cover_the_year_witness:
  "\<exists>months. generateCalendarYear uniformOrbit utcCivil berlin (events2025 953832600000) = Inr months
     \<and> length months = 12 \<and> sum_list (map TotalDays months) = 365"
proof -
  from generateCalendarYear_total [OF uniformOrbit_range] obtain months where
    g: "generateCalendarYear uniformOrbit utcCivil berlin (events2025 953832600000) = Inr months"
    by blast
  have "sweepLength (events2025 953832600000) = 365"
    by (simp add: sweepLength_def format_YYYY_MM_DD_def events2025_def SE2025_def)
  with month_totals_cover_the_year [OF g] g show ?thesis by auto
qed



text \<open>
  C4. With an ephemeris whose angles are at least -180 degrees, when the search of no day
  of the sweep reports a match, the day loop ends and the birth moment it holds is the
  birth instant passed in.
\<close>

theorem no_match_keeps_birth_instant:
  assumes "\<forall>t. - 180 \<le> HelioAngle eph t"
    and "\<forall>k<sweepLength ev. daySearch eph civ obs ev k = None"
  shows "locatedBirthMoment eph civ obs ev = Inr (Birth ev)"
proof -
  let ?r = "getHeliocentricLongitude eph (SpringEquinox ev)"
  let ?T = "getBirthDegree eph civ (Birth ev)"
  have "?r \<le> 360"
    using getHeliocentricLongitude_range(2) [of eph "SpringEquinox ev"] assms(1) by (simp add: less_imp_le)
  from sweep_total [OF assms(1) this initialCalendar_length]
  obtain moment cal where
    s: "sweep eph obs ev ?r ?T (SpringEquinox ev) (Birth ev) initialCalendar = Inr (moment, cal)"
    by fastforce
  have "moment = Birth ev"
    by (rule sweep_no_match [OF s]) (use assms(2) in \<open>simp add: sweepLength_def daySearch_def\<close>)
  then show ?thesis using s by (simp add: locatedBirthMoment_def)
qed

theorem no_match_keeps_birth_instant_witness:
  "locatedBirthMoment uniformOrbit utcCivil berlin (eventsTwoDays 1742860560000) = Inr 1742860560000"
proof -
  have n: "sweepLength (eventsTwoDays 1742860560000) = 2"
    by (simp add: sweepLength_def format_YYYY_MM_DD_def eventsTwoDays_def events2025_def SE2025_def)
  have d0: "daySearch uniformOrbit utcCivil berlin (eventsTwoDays 1742860560000) 0 = None"
    by (simp add: daySearch_def model_defs eval_defs)
  have d1: "daySearch uniformOrbit utcCivil berlin (eventsTwoDays 1742860560000) 1 = None"
    by (simp add: daySearch_def model_defs eval_defs)
  have "\<forall>k<sweepLength (eventsTwoDays 1742860560000).
          daySearch uniformOrbit utcCivil berlin (eventsTwoDays 1742860560000) k = None"
    unfolding n using d0 d1 by (auto simp: less_Suc_eq numeral_2_eq_2)
  from no_match_keeps_birth_instant [OF uniformOrbit_range this]
  show ?thesis by (simp add: eventsTwoDays_def events2025_def)
qed



section \<open>The events of each day\<close>

lemma in_allDays: "i < length cal \<Longrightarrow> d \<in> set (Days (cal ! i)) \<Longrightarrow> d \<in> set (allDays cal)"
  by (auto simp: allDays_def intro: nth_mem)

lemma pushDay_last:
  assumes "pushDay cal i mk = Inr cal1"
  shows "mk (length (Days (cal ! nat i)) + 1) \<in> set (Days (cal1 ! nat i))"
  using pushDay_Inr [OF assms] by simp

lemma sweep_day_record:
  "sweep eph obs ev r T cur fin cal = Inr (fin', cal') \<Longrightarrow>
   k < nat (format_YYYY_MM_DD (SpringEquinox2 ev) - format_YYYY_MM_DD cur) \<Longrightarrow>
   \<exists>d. d \<in> set (allDays cal') \<and>
       Date d = noon_utc (cur + int k * MILLISECONDS_PER_DAY) \<and>
       Events d = dayEvents ev (birthMomentAt eph obs r T cur fin k) (cur + int k * MILLISECONDS_PER_DAY)"
proof (induction eph obs ev r T cur fin cal arbitrary: k rule: sweep.induct)
  case (1 eph obs ev r T cur fin cal)
  have True: "isBefore_day cur (SpringEquinox2 ev)"
    using "1.prems"(2) by (simp add: isBefore_day_iff)
  from sweep_step [OF True "1.prems"(1)] obtain cal1 where
    p: "pushDay cal (monthIndex (noonDegree eph obs r cur))
          (makeDay eph obs ev (noonDegree eph obs r cur) (updateBirthMoment eph obs r T cur fin) cur) = Inr cal1"
    and s: "sweep eph obs ev r T (cur + MILLISECONDS_PER_DAY)
              (updateBirthMoment eph obs r T cur fin) cal1 = Inr (fin', cal')"
    by blast
  show ?case
  proof (cases k)
    case 0
    let ?i = "nat (monthIndex (noonDegree eph obs r cur))"
    let ?d = "makeDay eph obs ev (noonDegree eph obs r cur) (updateBirthMoment eph obs r T cur fin) cur
                (length (Days (cal ! ?i)) + 1)"
    have i: "?i < length cal1" using pushDay_Inr(2) [OF p] pushDay_length [OF p] by simp
    have "?d \<in> set (Days (cal1 ! ?i))" by (rule pushDay_last [OF p])
    moreover have "prefix (Days (cal1 ! ?i)) (Days (cal' ! ?i))" by (rule sweep_prefix [OF s i])
    ultimately have "?d \<in> set (Days (cal' ! ?i))" by (meson set_mono_prefix subsetD)
    moreover have "?i < length cal'" using sweep_allDates [OF s] i by simp
    ultimately have "?d \<in> set (allDays cal')" by (rule in_allDays [rotated])
    then show ?thesis using 0 by (intro exI [of _ ?d]) simp
  next
    case (Suc j)
    from days_left_Suc [OF True] obtain m where
      n: "nat (format_YYYY_MM_DD (SpringEquinox2 ev) - format_YYYY_MM_DD cur) = Suc m"
      and m: "nat (format_YYYY_MM_DD (SpringEquinox2 ev) - format_YYYY_MM_DD (cur + MILLISECONDS_PER_DAY)) = m"
      by blast
    have "j < m" using "1.prems"(2) Suc n by simp
    then have j: "j < nat (format_YYYY_MM_DD (SpringEquinox2 ev) - format_YYYY_MM_DD (cur + MILLISECONDS_PER_DAY))"
      using m by simp
    have e: "cur + int (Suc j) * MILLISECONDS_PER_DAY = cur + MILLISECONDS_PER_DAY + int j * MILLISECONDS_PER_DAY"
      by simp
    from "1.IH" [OF True p s j] show ?thesis unfolding Suc e by simp
  qed
qed

lemma generateCalendarYear_day_record:
  assumes "generateCalendarYear eph civ obs ev = Inr months" and "k < sweepLength ev"
  shows "\<exists>d. d \<in> set (allDays months) \<and>
       Date d = noon_utc (SpringEquinox ev + int k * MILLISECONDS_PER_DAY) \<and>
       Events d = dayEvents ev
         (birthMomentAt eph obs (getHeliocentricLongitude eph (SpringEquinox ev))
            (getBirthDegree eph civ (Birth ev)) (SpringEquinox ev) (Birth ev) k)
         (SpringEquinox ev + int k * MILLISECONDS_PER_DAY)"
proof -
  from generateCalendarYear_Inr [OF assms(1)] obtain moment cal where
    s: "sweep eph obs ev (getHeliocentricLongitude eph (SpringEquinox ev)) (getBirthDegree eph civ (Birth ev))
          (SpringEquinox ev) (Birth ev) initialCalendar = Inr (moment, cal)"
    and m: "months = finalize cal" by blast
  have "allDays (finalize cal) = allDays cal"
    by (simp add: allDays_def finalize_def o_def)
  with sweep_day_record [OF s] assms(2) show ?thesis
    by (simp add: m sweepLength_def)
qed


section \<open>Runs of the generator on the model ephemeris\<close>

lemma bisect_probe:
  assumes "low \<le> high" and "iterations < 100" and "mid = low + (high - low) div 2"
    and "td = getDegree (getHeliocentricLongitude eph mid) r"
  shows "bisect eph r T S E low high iterations =
         (if \<bar>td - T\<bar> < 1 / 1000 then Some mid
          else if td < T then
            (if S > E \<and> td < E \<and> T > S then bisect eph r T S E low (mid - 1) (iterations + 1)
             else bisect eph r T S E (mid + 1) high (iterations + 1))
          else
            (if S > E \<and> td > S \<and> T < E then bisect eph r T S E (mid + 1) high (iterations + 1)
             else bisect eph r T S E low (mid - 1) (iterations + 1)))"
  using assms(1,2) unfolding assms(3,4) by (subst bisect.simps) (simp add: Let_def)

lemmas lon_defs =
  uniformOrbit_def SE2025_def wrap180_def getHeliocentricLongitude_def getDegree_def
  js_rem_def js_trunc_def toFixed2_def

lemmas step_defs = updateBirthMoment_def dayEvents_def equinoxSolsticeEvents_def BirthOrbit_def

lemma reference2025: "getHeliocentricLongitude uniformOrbit SE2025 = 180"
  by (simp add: lon_defs)

lemma sweepLength2025: "sweepLength (events2025 birth) = 365"
  by (simp add: sweepLength_def format_YYYY_MM_DD_def events2025_def SE2025_def)

text \<open>A birth at 2025-03-24 23:56:00 UTC, inside the generated year, for an observer at 13.4 degrees east.\<close>

lemma two_target: "getBirthDegree uniformOrbit utcCivil 1742860560000 = 114 / 25"
  by (simp add: model_defs eval_defs)

lemma two_day0: "updateBirthMoment uniformOrbit berlin 180 (114 / 25) 1742461260000 1742860560000 = 1742860560000"
  by (simp add: model_defs eval_defs step_defs)

lemma two_day1: "updateBirthMoment uniformOrbit berlin 180 (114 / 25) 1742547660000 1742860560000 = 1742860560000"
  by (simp add: model_defs eval_defs step_defs)

lemma two_day2: "updateBirthMoment uniformOrbit berlin 180 (114 / 25) 1742634060000 1742860560000 = 1742860560000"
  by (simp add: model_defs eval_defs step_defs)

lemma two_day3: "updateBirthMoment uniformOrbit berlin 180 (114 / 25) 1742720460000 1742860560000 = 1742860560000"
  by (simp add: model_defs eval_defs step_defs)

lemma two_day4: "updateBirthMoment uniformOrbit berlin 180 (114 / 25) 1742806860000 1742860560000 = 1742860560000"
  by (simp add: model_defs eval_defs step_defs)

lemma two_bisect:
  "bisect uniformOrbit 180 (114 / 25) (113 / 25) (551 / 100) 1742857584000 1742943984000 0 = Some 1742860958999"
proof -
  have d0: "getDegree (getHeliocentricLongitude uniformOrbit 1742900784000) 180 = 501 / 100"
    by (simp add: lon_defs)
  have s0: "bisect uniformOrbit 180 (114 / 25) (113 / 25) (551 / 100) 1742857584000 1742943984000 0 = bisect uniformOrbit 180 (114 / 25) (113 / 25) (551 / 100) 1742857584000 1742900783999 1"
    by (rule trans [OF bisect_probe [where mid = 1742900784000 and td = "501 / 100"]]) (simp_all add: d0)
  have d1: "getDegree (getHeliocentricLongitude uniformOrbit 1742879183999) 180 = 477 / 100"
    by (simp add: lon_defs)
  have s1: "bisect uniformOrbit 180 (114 / 25) (113 / 25) (551 / 100) 1742857584000 1742900783999 1 = bisect uniformOrbit 180 (114 / 25) (113 / 25) (551 / 100) 1742857584000 1742879183998 2"
    by (rule trans [OF bisect_probe [where mid = 1742879183999 and td = "477 / 100"]]) (simp_all add: d1 numeral_2_eq_2)
  have d2: "getDegree (getHeliocentricLongitude uniformOrbit 1742868383999) 180 = 116 / 25"
    by (simp add: lon_defs)
  have s2: "bisect uniformOrbit 180 (114 / 25) (113 / 25) (551 / 100) 1742857584000 1742879183998 2 = bisect uniformOrbit 180 (114 / 25) (113 / 25) (551 / 100) 1742857584000 1742868383998 3"
    by (rule trans [OF bisect_probe [where mid = 1742868383999 and td = "116 / 25"]]) (simp_all add: d2)
  have d3: "getDegree (getHeliocentricLongitude uniformOrbit 1742862983999) 180 = 229 / 50"
    by (simp add: lon_defs)
  have s3: "bisect uniformOrbit 180 (114 / 25) (113 / 25) (551 / 100) 1742857584000 1742868383998 3 = bisect uniformOrbit 180 (114 / 25) (113 / 25) (551 / 100) 1742857584000 1742862983998 4"
    by (rule trans [OF bisect_probe [where mid = 1742862983999 and td = "229 / 50"]]) (simp_all add: d3)
  have d4: "getDegree (getHeliocentricLongitude uniformOrbit 1742860283999) 180 = 91 / 20"
    by (simp add: lon_defs)
  have s4: "bisect uniformOrbit 180 (114 / 25) (113 / 25) (551 / 100) 1742857584000 1742862983998 4 = bisect uniformOrbit 180 (114 / 25) (113 / 25) (551 / 100) 1742860284000 1742862983998 5"
    by (rule trans [OF bisect_probe [where mid = 1742860283999 and td = "91 / 20"]]) (simp_all add: d4)
  have d5: "getDegree (getHeliocentricLongitude uniformOrbit 1742861633999) 180 = 457 / 100"
    by (simp add: lon_defs)
  have s5: "bisect uniformOrbit 180 (114 / 25) (113 / 25) (551 / 100) 1742860284000 1742862983998 5 = bisect uniformOrbit 180 (114 / 25) (113 / 25) (551 / 100) 1742860284000 1742861633998 6"
    by (rule trans [OF bisect_probe [where mid = 1742861633999 and td = "457 / 100"]]) (simp_all add: d5)
  have d6: "getDegree (getHeliocentricLongitude uniformOrbit 1742860958999) 180 = 114 / 25"
    by (simp add: lon_defs)
  have s6: "bisect uniformOrbit 180 (114 / 25) (113 / 25) (551 / 100) 1742860284000 1742861633998 6 = Some 1742860958999"
    by (rule trans [OF bisect_probe [where mid = 1742860958999 and td = "114 / 25"]]) (simp_all add: d6)
  show ?thesis by (simp only: s0 s1 s2 s3 s4 s5 s6)
qed

lemma two_search: "birthMomentCurrentIteration uniformOrbit 180 (114 / 25) (getDayInfo uniformOrbit berlin 1742893260000) = Some 1742860958999"
proof -
  have "birthMomentCurrentIteration uniformOrbit 180 (114 / 25) (getDayInfo uniformOrbit berlin 1742893260000) =
        bisect uniformOrbit 180 (114 / 25) (113 / 25) (551 / 100) 1742857584000 1742943984000 0"
    by (simp add: model_defs eval_defs)
  then show ?thesis by (simp only: two_bisect)
qed

lemma two_day5: "updateBirthMoment uniformOrbit berlin 180 (114 / 25) 1742893260000 1742860560000 = 1742860958999"
  by (simp add: updateBirthMoment_def two_search)

lemma two_moment4: "birthMomentAt uniformOrbit berlin 180 (114 / 25) 1742461260000 1742860560000 4 = 1742860560000"
  by (simp add: eval_nat_numeral two_day0 two_day1 two_day2 two_day3 two_day4)

lemma two_moment5: "birthMomentAt uniformOrbit berlin 180 (114 / 25) 1742461260000 1742860560000 5 = 1742860958999"
  by (simp add: eval_nat_numeral two_day0 two_day1 two_day2 two_day3 two_day4 two_day5)

text \<open>A birth at 2000-03-23 17:30:00 UTC, for the same observer.\<close>

lemma missed_target: "getBirthDegree uniformOrbit utcCivil 953832600000 = 71 / 20"
  by (simp add: model_defs eval_defs)

lemma missed_day0: "updateBirthMoment uniformOrbit berlin 180 (71 / 20) 1742461260000 953832600000 = 953832600000"
  by (simp add: model_defs eval_defs step_defs)

lemma missed_day1: "updateBirthMoment uniformOrbit berlin 180 (71 / 20) 1742547660000 953832600000 = 953832600000"
  by (simp add: model_defs eval_defs step_defs)

lemma missed_day2: "updateBirthMoment uniformOrbit berlin 180 (71 / 20) 1742634060000 953832600000 = 953832600000"
  by (simp add: model_defs eval_defs step_defs)

lemma missed_day3: "updateBirthMoment uniformOrbit berlin 180 (71 / 20) 1742720460000 953832600000 = 953832600000"
  by (simp add: model_defs eval_defs step_defs)

lemma missed_bisect:
  "bisect uniformOrbit 180 (71 / 20) (177 / 50) (113 / 25) 1742771184000 1742857584000 0 = Some 1742772533999"
proof -
  have d0: "getDegree (getHeliocentricLongitude uniformOrbit 1742814384000) 180 = 403 / 100"
    by (simp add: lon_defs)
  have s0: "bisect uniformOrbit 180 (71 / 20) (177 / 50) (113 / 25) 1742771184000 1742857584000 0 = bisect uniformOrbit 180 (71 / 20) (177 / 50) (113 / 25) 1742771184000 1742814383999 1"
    by (rule trans [OF bisect_probe [where mid = 1742814384000 and td = "403 / 100"]]) (simp_all add: d0)
  have d1: "getDegree (getHeliocentricLongitude uniformOrbit 1742792783999) 180 = 189 / 50"
    by (simp add: lon_defs)
  have s1: "bisect uniformOrbit 180 (71 / 20) (177 / 50) (113 / 25) 1742771184000 1742814383999 1 = bisect uniformOrbit 180 (71 / 20) (177 / 50) (113 / 25) 1742771184000 1742792783998 2"
    by (rule trans [OF bisect_probe [where mid = 1742792783999 and td = "189 / 50"]]) (simp_all add: d1 numeral_2_eq_2)
  have d2: "getDegree (getHeliocentricLongitude uniformOrbit 1742781983999) 180 = 183 / 50"
    by (simp add: lon_defs)
  have s2: "bisect uniformOrbit 180 (71 / 20) (177 / 50) (113 / 25) 1742771184000 1742792783998 2 = bisect uniformOrbit 180 (71 / 20) (177 / 50) (113 / 25) 1742771184000 1742781983998 3"
    by (rule trans [OF bisect_probe [where mid = 1742781983999 and td = "183 / 50"]]) (simp_all add: d2)
  have d3: "getDegree (getHeliocentricLongitude uniformOrbit 1742776583999) 180 = 18 / 5"
    by (simp add: lon_defs)
  have s3: "bisect uniformOrbit 180 (71 / 20) (177 / 50) (113 / 25) 1742771184000 1742781983998 3 = bisect uniformOrbit 180 (71 / 20) (177 / 50) (113 / 25) 1742771184000 1742776583998 4"
    by (rule trans [OF bisect_probe [where mid = 1742776583999 and td = "18 / 5"]]) (simp_all add: d3)
  have d4: "getDegree (getHeliocentricLongitude uniformOrbit 1742773883999) 180 = 357 / 100"
    by (simp add: lon_defs)
  have s4: "bisect uniformOrbit 180 (71 / 20) (177 / 50) (113 / 25) 1742771184000 1742776583998 4 = bisect uniformOrbit 180 (71 / 20) (177 / 50) (113 / 25) 1742771184000 1742773883998 5"
    by (rule trans [OF bisect_probe [where mid = 1742773883999 and td = "357 / 100"]]) (simp_all add: d4)
  have d5: "getDegree (getHeliocentricLongitude uniformOrbit 1742772533999) 180 = 71 / 20"
    by (simp add: lon_defs)
  have s5: "bisect uniformOrbit 180 (71 / 20) (177 / 50) (113 / 25) 1742771184000 1742773883998 5 = Some 1742772533999"
    by (rule trans [OF bisect_probe [where mid = 1742772533999 and td = "71 / 20"]]) (simp_all add: d5)
  show ?thesis by (simp only: s0 s1 s2 s3 s4 s5)
qed

lemma missed_search: "birthMomentCurrentIteration uniformOrbit 180 (71 / 20) (getDayInfo uniformOrbit berlin 1742806860000) = Some 1742772533999"
proof -
  have "birthMomentCurrentIteration uniformOrbit 180 (71 / 20) (getDayInfo uniformOrbit berlin 1742806860000) =
        bisect uniformOrbit 180 (71 / 20) (177 / 50) (113 / 25) 1742771184000 1742857584000 0"
    by (simp add: model_defs eval_defs)
  then show ?thesis by (simp only: missed_bisect)
qed

lemma missed_moment3: "birthMomentAt uniformOrbit berlin 180 (71 / 20) 1742461260000 953832600000 3 = 953832600000"
  by (simp add: eval_nat_numeral missed_day0 missed_day1 missed_day2 missed_day3)

text \<open>A birth at 2000-03-23 17:45:00 UTC, for the same observer.\<close>

lemma coarse_target: "getBirthDegree uniformOrbit utcCivil 953833500000 = 89 / 25"
  by (simp add: model_defs eval_defs)

lemma coarse_bisect:
  "bisect uniformOrbit 180 (89 / 25) (177 / 50) (113 / 25) 1742771184000 1742857584000 0 = Some 1742773208999"
proof -
  have d0: "getDegree (getHeliocentricLongitude uniformOrbit 1742814384000) 180 = 403 / 100"
    by (simp add: lon_defs)
  have s0: "bisect uniformOrbit 180 (89 / 25) (177 / 50) (113 / 25) 1742771184000 1742857584000 0 = bisect uniformOrbit 180 (89 / 25) (177 / 50) (113 / 25) 1742771184000 1742814383999 1"
    by (rule trans [OF bisect_probe [where mid = 1742814384000 and td = "403 / 100"]]) (simp_all add: d0)
  have d1: "getDegree (getHeliocentricLongitude uniformOrbit 1742792783999) 180 = 189 / 50"
    by (simp add: lon_defs)
  have s1: "bisect uniformOrbit 180 (89 / 25) (177 / 50) (113 / 25) 1742771184000 1742814383999 1 = bisect uniformOrbit 180 (89 / 25) (177 / 50) (113 / 25) 1742771184000 1742792783998 2"
    by (rule trans [OF bisect_probe [where mid = 1742792783999 and td = "189 / 50"]]) (simp_all add: d1 numeral_2_eq_2)
  have d2: "getDegree (getHeliocentricLongitude uniformOrbit 1742781983999) 180 = 183 / 50"
    by (simp add: lon_defs)
  have s2: "bisect uniformOrbit 180 (89 / 25) (177 / 50) (113 / 25) 1742771184000 1742792783998 2 = bisect uniformOrbit 180 (89 / 25) (177 / 50) (113 / 25) 1742771184000 1742781983998 3"
    by (rule trans [OF bisect_probe [where mid = 1742781983999 and td = "183 / 50"]]) (simp_all add: d2)
  have d3: "getDegree (getHeliocentricLongitude uniformOrbit 1742776583999) 180 = 18 / 5"
    by (simp add: lon_defs)
  have s3: "bisect uniformOrbit 180 (89 / 25) (177 / 50) (113 / 25) 1742771184000 1742781983998 3 = bisect uniformOrbit 180 (89 / 25) (177 / 50) (113 / 25) 1742771184000 1742776583998 4"
    by (rule trans [OF bisect_probe [where mid = 1742776583999 and td = "18 / 5"]]) (simp_all add: d3)
  have d4: "getDegree (getHeliocentricLongitude uniformOrbit 1742773883999) 180 = 357 / 100"
    by (simp add: lon_defs)
  have s4: "bisect uniformOrbit 180 (89 / 25) (177 / 50) (113 / 25) 1742771184000 1742776583998 4 = bisect uniformOrbit 180 (89 / 25) (177 / 50) (113 / 25) 1742771184000 1742773883998 5"
    by (rule trans [OF bisect_probe [where mid = 1742773883999 and td = "357 / 100"]]) (simp_all add: d4)
  have d5: "getDegree (getHeliocentricLongitude uniformOrbit 1742772533999) 180 = 71 / 20"
    by (simp add: lon_defs)
  have s5: "bisect uniformOrbit 180 (89 / 25) (177 / 50) (113 / 25) 1742771184000 1742773883998 5 = bisect uniformOrbit 180 (89 / 25) (177 / 50) (113 / 25) 1742772534000 1742773883998 6"
    by (rule trans [OF bisect_probe [where mid = 1742772533999 and td = "71 / 20"]]) (simp_all add: d5)
  have d6: "getDegree (getHeliocentricLongitude uniformOrbit 1742773208999) 180 = 89 / 25"
    by (simp add: lon_defs)
  have s6: "bisect uniformOrbit 180 (89 / 25) (177 / 50) (113 / 25) 1742772534000 1742773883998 6 = Some 1742773208999"
    by (rule trans [OF bisect_probe [where mid = 1742773208999 and td = "89 / 25"]]) (simp_all add: d6)
  show ?thesis by (simp only: s0 s1 s2 s3 s4 s5 s6)
qed

lemma coarse_search: "birthMomentCurrentIteration uniformOrbit 180 (89 / 25) (getDayInfo uniformOrbit berlin 1742806860000) = Some 1742773208999"
proof -
  have "birthMomentCurrentIteration uniformOrbit 180 (89 / 25) (getDayInfo uniformOrbit berlin 1742806860000) =
        bisect uniformOrbit 180 (89 / 25) (177 / 50) (113 / 25) 1742771184000 1742857584000 0"
    by (simp add: model_defs eval_defs)
  then show ?thesis by (simp only: coarse_bisect)
qed

lemma two_in_list:
  assumes "x \<in> set xs" and "y \<in> set xs" and "x \<noteq> y"
  shows "2 \<le> length xs"
proof -
  have "card {x, y} \<le> card (set xs)" using assms(1,2) by (intro card_mono) auto
  moreover have "card {x, y} = 2" using assms(3) by simp
  moreover have "card (set xs) \<le> length xs" by (rule card_length)
  ultimately show ?thesis by linarith
qed

text \<open>
  C2 (the code departs from the claim). On the model ephemeris, for a birth at
  2000-03-23 17:45:00 UTC, the target is 3.56 and the search of 24 March 2025 reports a
  match at 2025-03-23 23:40:08.999 UTC, where the degree before rounding is
  311948999/87660000 = 3.5586..., more than 0.001 away from the target: the comparison
  is made on the degree rounded to two decimals.
\<close>

theorem search_matches_on_rounded_degree:
  "daySearch uniformOrbit utcCivil berlin (events2025 953833500000) 4 = Some 1742773208999 \<and>
   getBirthDegree uniformOrbit utcCivil 953833500000 = 89 / 25 \<and>
   unroundedDegree (getHeliocentricLongitude uniformOrbit 1742773208999)
     (getHeliocentricLongitude uniformOrbit SE2025) = 311948999 / 87660000 \<and>
   \<not> \<bar>unroundedDegree (getHeliocentricLongitude uniformOrbit 1742773208999)
        (getHeliocentricLongitude uniformOrbit SE2025) - 89 / 25\<bar> < DEGREE_PRECISION"
proof -
  have s: "daySearch uniformOrbit utcCivil berlin (events2025 953833500000) 4 = Some 1742773208999"
    by (simp add: daySearch_def events2025_def reference2025 [unfolded SE2025_def]
          coarse_target coarse_search SE2025_def)
  have l: "getHeliocentricLongitude uniformOrbit 1742773208999 = 16090748999 / 87660000"
    by (simp add: lon_defs)
  have u: "unroundedDegree (getHeliocentricLongitude uniformOrbit 1742773208999)
             (getHeliocentricLongitude uniformOrbit SE2025) = 311948999 / 87660000"
    by (simp add: unroundedDegree_def l reference2025 js_rem_def js_trunc_def)
  show ?thesis by (simp add: s coarse_target u)
qed

text \<open>
  C3 (the code departs from the claim). On the model ephemeris, for a birth at
  2025-03-24 23:56:00 UTC, the generated year 2025 has two day records with a BirthOrbit
  event: 24 March, built from the birth instant before any match, and 25 March, built
  from the match that the search of 25 March reports.
\<close>

theorem two_days_carry_BirthOrbit:
  "\<exists>months d1 d2.
     generateCalendarYear uniformOrbit utcCivil berlin (events2025 1742860560000) = Inr months \<and>
     d1 \<in> set (allDays months) \<and> d2 \<in> set (allDays months) \<and>
     Date d1 = 1742817600000 \<and> Date d2 = 1742904000000 \<and>
     Events d1 = [BirthOrbit 1742860560000] \<and> Events d2 = [BirthOrbit 1742860958999] \<and>
     2 \<le> length (filter carriesBirthOrbit (allDays months))"
proof -
  let ?ev = "events2025 1742860560000"
  from generateCalendarYear_total [OF uniformOrbit_range] obtain months where
    g: "generateCalendarYear uniformOrbit utcCivil berlin ?ev = Inr months" by blast
  have r: "getHeliocentricLongitude uniformOrbit 1742461260000 = 180"
    using reference2025 by (simp add: SE2025_def)
  note T = two_target
  have e: "SpringEquinox ?ev = 1742461260000" "Birth ?ev = 1742860560000"
    by (simp_all add: events2025_def SE2025_def)
  from generateCalendarYear_day_record [OF g, of 4] obtain d1 where
    d1: "d1 \<in> set (allDays months)" "Date d1 = noon_utc 1742806860000"
        "Events d1 = dayEvents ?ev 1742860560000 1742806860000"
    unfolding e r T by (auto simp: sweepLength2025 two_moment4)
  from generateCalendarYear_day_record [OF g, of 5] obtain d2 where
    d2: "d2 \<in> set (allDays months)" "Date d2 = noon_utc 1742893260000"
        "Events d2 = dayEvents ?ev 1742860958999 1742893260000"
    unfolding e r T by (auto simp: sweepLength2025 two_moment5)
  have D1: "Date d1 = 1742817600000" and D2: "Date d2 = 1742904000000"
    by (simp_all add: d1 d2 noon_utc_def)
  have E1: "Events d1 = [BirthOrbit 1742860560000]" and E2: "Events d2 = [BirthOrbit 1742860958999]"
    by (simp_all add: d1 d2 dayEvents_def format_YYYY_MM_DD_def)
  have "d1 \<noteq> d2" using D1 D2 by auto
  moreover have "d1 \<in> set (filter carriesBirthOrbit (allDays months))"
    and "d2 \<in> set (filter carriesBirthOrbit (allDays months))"
    using d1(1) d2(1) E1 E2 by (simp_all add: carriesBirthOrbit_def BirthOrbit_def)
  ultimately have "2 \<le> length (filter carriesBirthOrbit (allDays months))"
    by (intro two_in_list [of d1 _ d2])
  with g d1(1) d2(1) D1 D2 E1 E2 show ?thesis by blast
qed

text \<open>
  C7 (the code departs from the claim). On the model ephemeris, for a birth at
  2000-03-23 17:30:00 UTC, the search of 24 March 2025 locates the birthday at
  2025-03-23 23:28:53.999 UTC, on the civil date of the day before; the record of
  23 March was built a day earlier and has no event at all.
\<close>

theorem birthday_day_without_BirthOrbit:
  "\<exists>months d.
     generateCalendarYear uniformOrbit utcCivil berlin (events2025 953832600000) = Inr months \<and>
     daySearch uniformOrbit utcCivil berlin (events2025 953832600000) 4 = Some 1742772533999 \<and>
     d \<in> set (allDays months) \<and>
     format_YYYY_MM_DD (Date d) = format_YYYY_MM_DD 1742772533999 \<and>
     Events d = []"
proof -
  let ?ev = "events2025 953832600000"
  from generateCalendarYear_total [OF uniformOrbit_range] obtain months where
    g: "generateCalendarYear uniformOrbit utcCivil berlin ?ev = Inr months" by blast
  have r: "getHeliocentricLongitude uniformOrbit 1742461260000 = 180"
    using reference2025 by (simp add: SE2025_def)
  note T = missed_target
  have e: "SpringEquinox ?ev = 1742461260000" "Birth ?ev = 953832600000"
    by (simp_all add: events2025_def SE2025_def)
  have s: "daySearch uniformOrbit utcCivil berlin ?ev 4 = Some 1742772533999"
    unfolding daySearch_def e r T by (simp add: missed_search)
  from generateCalendarYear_day_record [OF g, of 3] obtain d where
    d: "d \<in> set (allDays months)" "Date d = noon_utc 1742720460000"
       "Events d = dayEvents ?ev 953832600000 1742720460000"
    unfolding e r T by (auto simp: sweepLength2025 missed_moment3)
  have "format_YYYY_MM_DD (Date d) = format_YYYY_MM_DD 1742772533999"
    by (simp add: d noon_utc_def format_YYYY_MM_DD_def)
  moreover have "Events d = []"
    by (simp add: d dayEvents_def equinoxSolsticeEvents_def format_YYYY_MM_DD_def events2025_def SE2025_def)
  ultimately show ?thesis using g s d(1) by blast
qed



section \<open>The longitude cache\<close>

lemma getHeliocentricLongitude_cached_sound:
  assumes "cacheSound eph c"
  shows "fst (getHeliocentricLongitude_cached eph c d) = getHeliocentricLongitude eph d"
    and "cacheSound eph (snd (getHeliocentricLongitude_cached eph c d))"
  using assms
  by (auto simp: getHeliocentricLongitude_cached_def cacheSound_def getHeliocentricLongitude_def Let_def
           split: option.splits)

lemma bisect_cached_sound:
  "cacheSound eph c \<Longrightarrow>
     fst (bisect_cached eph c r T S E low high iterations) = bisect eph r T S E low high iterations \<and>
     cacheSound eph (snd (bisect_cached eph c r T S E low high iterations))"
proof (induction eph c r T S E low high iterations rule: bisect_cached.induct)
  case (1 eph c r T S E low high iterations)
  let ?mid = "low + (high - low) div 2"
  let ?looked = "getHeliocentricLongitude_cached eph c ?mid"
  have L: "fst ?looked = getHeliocentricLongitude eph ?mid" "cacheSound eph (snd ?looked)"
    using getHeliocentricLongitude_cached_sound [OF "1.prems"] by auto
  note uc = bisect_cached.simps [of eph c r T S E low high iterations]
  note up = bisect.simps [of eph r T S E low high iterations]
  show ?case
  proof (cases "low \<le> high \<and> iterations < 100")
    case False
    show ?thesis
      by (simp only: uc up if_not_P [OF False] fst_conv snd_conv "1.prems" simp_thms)
  next
    case True
    note IH = "1.IH" [OF True refl refl refl]
    show ?thesis
      unfolding uc up using True L IH by (simp add: Let_def)
  qed
qed

lemma birthMomentCurrentIteration_cached_sound:
  assumes "cacheSound eph c"
  shows "fst (birthMomentCurrentIteration_cached eph c r T dayInfo) = birthMomentCurrentIteration eph r T dayInfo"
    and "cacheSound eph (snd (birthMomentCurrentIteration_cached eph c r T dayInfo))"
proof -
  let ?a = "getHeliocentricLongitude_cached eph c (info_SolarStart dayInfo)"
  let ?b = "getHeliocentricLongitude_cached eph (snd ?a) (info_SolarEnd dayInfo)"
  have a: "fst ?a = getHeliocentricLongitude eph (info_SolarStart dayInfo)" "cacheSound eph (snd ?a)"
    using getHeliocentricLongitude_cached_sound [OF assms] by auto
  have b: "fst ?b = getHeliocentricLongitude eph (info_SolarEnd dayInfo)" "cacheSound eph (snd ?b)"
    using getHeliocentricLongitude_cached_sound [OF a(2)] by auto
  show "fst (birthMomentCurrentIteration_cached eph c r T dayInfo) = birthMomentCurrentIteration eph r T dayInfo"
    using a b bisect_cached_sound [OF b(2)]
    by (simp add: birthMomentCurrentIteration_cached_def birthMomentCurrentIteration_def
          Let_def split_beta)
  show "cacheSound eph (snd (birthMomentCurrentIteration_cached eph c r T dayInfo))"
    using a b bisect_cached_sound [OF b(2)]
    by (simp add: birthMomentCurrentIteration_cached_def Let_def split_beta)
qed

lemma getBirthDegree_cached_sound:
  assumes "cacheSound eph c"
  shows "fst (getBirthDegree_cached eph civ c birthDate) = getBirthDegree eph civ birthDate \<and>
         cacheSound eph (snd (getBirthDegree_cached eph civ c birthDate))"
proof -
  have step: "fst (getHeliocentricLongitude_cached eph (snd (getHeliocentricLongitude_cached eph c e)) birthDate)
                = getHeliocentricLongitude eph birthDate \<and>
              fst (getHeliocentricLongitude_cached eph c e) = getHeliocentricLongitude eph e \<and>
              cacheSound eph (snd (getHeliocentricLongitude_cached eph
                                     (snd (getHeliocentricLongitude_cached eph c e)) birthDate))" for e
    using getHeliocentricLongitude_cached_sound [OF assms, of e]
      getHeliocentricLongitude_cached_sound [of eph "snd (getHeliocentricLongitude_cached eph c e)" birthDate]
    by simp
  show ?thesis
  proof (cases "birthDate < mar_equinox eph (year_of civ birthDate)")
    case True
    then show ?thesis
      using step [of "mar_equinox eph (year_of civ birthDate - 1)"]
      by (simp add: getBirthDegree_cached_def getBirthDegree_def Let_def split_beta)
  next
    case False
    then show ?thesis
      using step [of "mar_equinox eph (year_of civ birthDate)"]
      by (simp add: getBirthDegree_cached_def getBirthDegree_def Let_def split_beta)
  qed
qed

lemma updateBirthMoment_cached_sound:
  assumes "cacheSound eph c"
  shows "fst (updateBirthMoment_cached eph obs c r T cur fin) = updateBirthMoment eph obs r T cur fin"
    and "cacheSound eph (snd (updateBirthMoment_cached eph obs c r T cur fin))"
  using birthMomentCurrentIteration_cached_sound [OF assms]
  by (simp_all add: updateBirthMoment_cached_def updateBirthMoment_def split_beta)

lemma noonDegree_cached_sound:
  assumes "cacheSound eph c"
  shows "fst (noonDegree_cached eph obs c r cur) = noonDegree eph obs r cur"
    and "cacheSound eph (snd (noonDegree_cached eph obs c r cur))"
  using getHeliocentricLongitude_cached_sound [OF assms]
  by (simp_all add: noonDegree_cached_def noonDegree_def split_beta Let_def)

lemma sweep_cached_sound:
  "cacheSound eph c \<Longrightarrow>
     fst (sweep_cached eph obs ev r T cur fin cal c) = sweep eph obs ev r T cur fin cal \<and>
     cacheSound eph (snd (sweep_cached eph obs ev r T cur fin cal c))"
proof (induction eph obs ev r T cur fin cal c rule: sweep_cached.induct)
  case (1 eph obs ev r T cur fin cal c)
  note uc = sweep_cached.simps [of eph obs ev r T cur fin cal c]
  note up = sweep.simps [of eph obs ev r T cur fin cal]
  show ?case
  proof (cases "isBefore_day cur (SpringEquinox2 ev)")
    case False
    show ?thesis
      by (simp only: uc up if_not_P [OF False] fst_conv snd_conv "1.prems" simp_thms)
  next
    case True
    let ?found = "updateBirthMoment_cached eph obs c r T cur fin"
    let ?degree = "noonDegree_cached eph obs (snd ?found) r cur"
    have f: "fst ?found = updateBirthMoment eph obs r T cur fin" "cacheSound eph (snd ?found)"
      using updateBirthMoment_cached_sound [OF "1.prems"] by auto
    have d: "fst ?degree = noonDegree eph obs r cur" "cacheSound eph (snd ?degree)"
      using noonDegree_cached_sound [OF f(2)] by auto
    note IH = "1.IH" [OF True refl refl _ d(2)]
    show ?thesis
      unfolding uc up using True f d IH by (simp add: Let_def split: sum.splits)
  qed
qed

lemma cacheSound_empty: "cacheSound eph Map.empty"
  by (simp add: cacheSound_def)

lemma generateCalendarYear_cached_sound:
  assumes "cacheSound eph c"
  shows "fst (generateCalendarYear_cached eph civ obs ev c) = generateCalendarYear eph civ obs ev"
    and "cacheSound eph (snd (generateCalendarYear_cached eph civ obs ev c))"
proof -
  let ?a = "getHeliocentricLongitude_cached eph c (SpringEquinox ev)"
  let ?b = "getBirthDegree_cached eph civ (snd ?a) (Birth ev)"
  let ?s = "sweep_cached eph obs ev (fst ?a) (fst ?b) (SpringEquinox ev) (Birth ev) initialCalendar (snd ?b)"
  have a: "fst ?a = getHeliocentricLongitude eph (SpringEquinox ev)" "cacheSound eph (snd ?a)"
    using getHeliocentricLongitude_cached_sound [OF assms] by auto
  have b: "fst ?b = getBirthDegree eph civ (Birth ev)" "cacheSound eph (snd ?b)"
    using getBirthDegree_cached_sound [OF a(2), of civ "Birth ev"] by auto
  have s: "fst ?s = sweep eph obs ev (fst ?a) (fst ?b) (SpringEquinox ev) (Birth ev) initialCalendar"
    "cacheSound eph (snd ?s)"
    using sweep_cached_sound [OF b(2)] by auto
  show "fst (generateCalendarYear_cached eph civ obs ev c) = generateCalendarYear eph civ obs ev"
    using s(1) unfolding a b
    by (cases ?s) (auto simp: generateCalendarYear_cached_def generateCalendarYear_def Let_def split_beta a b
          split: sum.splits prod.splits)
  show "cacheSound eph (snd (generateCalendarYear_cached eph civ obs ev c))"
    using s(2)
    by (cases ?s) (auto simp: generateCalendarYear_cached_def Let_def split_beta split: sum.splits prod.splits)
qed

lemma generateCalendar_result:
  "fst (generateCalendar eph civ year birthDate birthTime timezone lat lon elevation g) =
     generateCalendarYear eph civ \<lparr>latitude = lat, longitude = lon, height = elevation\<rparr>
       (eventList eph civ year (tz_parse civ birthDate birthTime timezone))"
proof -
  let ?obs = "\<lparr>latitude = lat, longitude = lon, height = elevation\<rparr>"
  let ?ev = "eventList eph civ year (tz_parse civ birthDate birthTime timezone)"
  let ?y = "generateCalendarYear_cached eph civ ?obs ?ev Map.empty"
  have "fst ?y = generateCalendarYear eph civ ?obs ?ev"
    by (rule generateCalendarYear_cached_sound(1) [OF cacheSound_empty])
  then show ?thesis
    by (cases ?y) (auto simp: generateCalendar_def Let_def split: sum.splits)
qed

text \<open>
  C9. The calendar that \<^verbatim>\<open>generateCalendar\<close> returns does not depend on the module state it
  starts from (the cache, the calendar of an earlier run, the observer): two runs with
  the same parameters and the same ephemeris return the same calendar, also when the
  second run starts from the state the first one left. By \<open>generateCalendar_result\<close>
  the calendar is the one the generator without a cache computes.
\<close>

theorem regeneration_is_deterministic:
  "fst (generateCalendar eph civ year birthDate birthTime timezone lat lon elevation g1) =
   fst (generateCalendar eph civ year birthDate birthTime timezone lat lon elevation g2) \<and>
   fst (generateCalendar eph civ year birthDate birthTime timezone lat lon elevation
          (snd (generateCalendar eph civ year birthDate birthTime timezone lat lon elevation g1))) =
   fst (generateCalendar eph civ year birthDate birthTime timezone lat lon elevation g1)"
  by (simp add: generateCalendar_result)


end
